theory Spec2Isabelle
  imports Main "HOL-Library.Sublist"
begin

section \<open>JavaScript values\<close>

text \<open>
  A number of JavaScript is a double. The program never computes with one: it tests a
  number against zero and prints it. So a finite number is kept as the decimal that
  prints it: \<open>Decimal neg s e\<close> is \<open>s\<close> times ten to the power \<open>e\<close>, negated when \<open>neg\<close>
  is set, and stands for the double whose shortest decimal that reads back as the same
  double it is (87.5 is \<open>Decimal False 875 (-1)\<close>, the double 1e21 is \<open>Decimal False 1 21\<close>).
  \<open>Infinite\<close> is what \<^verbatim>\<open>JSON.parse\<close> makes of a numeral beyond the range of doubles. NaN
  cannot come out of JSON and is left out.
\<close>

datatype number = Decimal bool nat int | Infinite bool

text \<open>
  The client is dynamically typed: everything it renders comes out of \<^verbatim>\<open>response.json()\<close>.
  A value is one of the JSON shapes, \<^verbatim>\<open>undefined\<close> (what reading an absent property
  gives), or a built-in function object, named (reading \<^verbatim>\<open>match\<close> or \<^verbatim>\<open>link\<close> of a string
  finds the method of \<^verbatim>\<open>String.prototype\<close>). The members of an object are listed in the
  order of the JSON text. Strings are kept as their UTF-8 bytes, the encoding of the
  source files.
\<close>

datatype jsval =
    JUndefined
  | JNull
  | JBool bool
  | JNum number
  | JStr string
  | JArr "jsval list"
  | JObj "(string \<times> jsval) list"
  | JFn string

text \<open>
  Errors are values. \<open>Error\<close> is what the program throws itself with \<^verbatim>\<open>new Error(msg)\<close>;
  \<open>TypeError\<close> is what the engine throws on a property read of null or undefined, on
  a call of a non-function and on the conversion to a string of an object that has none
  (message texts as V8 words them); \<open>SyntaxError\<close> is a failed \<^verbatim>\<open>response.json()\<close>.
\<close>

datatype js_error = Error string | TypeError string | SyntaxError string

fun message :: "js_error \<Rightarrow> string" where
  "message (Error m) = m"
| "message (TypeError m) = m"
| "message (SyntaxError m) = m"

definition nl :: string where
  "nl = [CHR 0x0A]"

definition sp :: "nat \<Rightarrow> string" where
  "sp n = replicate n (CHR '' '')"

definition apos :: string where
  "apos = [CHR 0x27]"

fun show_nat :: "nat \<Rightarrow> string" where
  "show_nat n =
     (if n < 10 then [''0123456789'' ! n]
      else show_nat (n div 10) @ [''0123456789'' ! (n mod 10)])"

declare show_nat.simps [simp del]

definition whole :: "int \<Rightarrow> number" where
  "whole i = Decimal (i < 0) (nat \<bar>i\<bar>) 0"

fun is_zero :: "number \<Rightarrow> bool" where
  "is_zero (Decimal neg s e) = (s = 0)"
| "is_zero (Infinite neg) = False"

text \<open>Dropping the trailing zeros of the digits, so that the digits are as few as can be.\<close>

function strip_zeros :: "nat \<Rightarrow> int \<Rightarrow> nat \<times> int" where
  "strip_zeros s e =
     (if s \<noteq> 0 \<and> s mod 10 = 0 then strip_zeros (s div 10) (e + 1) else (s, e))"
  by pat_completeness auto
termination
  by (relation "measure (\<lambda>(s, e). s)") auto

declare strip_zeros.simps [simp del]

text \<open>
  \<^verbatim>\<open>Number::toString\<close> of ECMAScript, radix ten, on a positive finite number: with \<open>k\<close>
  digits \<open>ds\<close> and the decimal point after the \<open>n\<close>-th digit, the number is written in
  full when \<open>n\<close> is from \<open>-5\<close> to \<open>21\<close> and with an exponent otherwise.
\<close>

definition digits_to_string :: "string \<Rightarrow> int \<Rightarrow> string" where
  "digits_to_string ds n =
     (let k = int (length ds) in
      if - 5 \<le> n \<and> n \<le> 21 then
        (if k \<le> n then ds @ replicate (nat (n - k)) (CHR ''0'')
         else if 0 < n then take (nat n) ds @ ''.'' @ drop (nat n) ds
         else ''0.'' @ replicate (nat (- n)) (CHR ''0'') @ ds)
      else
        (if k = 1 then ds else take 1 ds @ ''.'' @ drop 1 ds) @ ''e'' @
        (if 0 \<le> n - 1 then ''+'' else ''-'') @ show_nat (nat \<bar>n - 1\<bar>))"

fun number_to_string :: "number \<Rightarrow> string" where
  "number_to_string (Infinite neg) = (if neg then ''-Infinity'' else ''Infinity'')"
| "number_to_string (Decimal neg s e) =
     (if s = 0 then ''0''
      else
        (if neg then ''-'' else []) @
        (case strip_zeros s e of
           (s', e') \<Rightarrow> digits_to_string (show_nat s') (e' + int (length (show_nat s')))))"

text \<open>
  The \<^verbatim>\<open>length\<close> of a string counts UTF-16 code units: one for each code point, two for
  a code point of four bytes.
\<close>

definition utf16_length :: "string \<Rightarrow> nat" where
  "utf16_length s =
     length (filter (\<lambda>c. (of_char c :: nat) < 128 \<or> 192 \<le> (of_char c :: nat)) s) +
     length (filter (\<lambda>c. 240 \<le> (of_char c :: nat)) s)"

fun join_with :: "string \<Rightarrow> string list \<Rightarrow> string" where
  "join_with sep [] = []"
| "join_with sep [x] = x"
| "join_with sep (x # y # ys) = x @ sep @ join_with sep (y # ys)"

text \<open>\<^verbatim>\<open>!!v\<close>: the falsy values are undefined, null, false, 0 and the empty string.\<close>

fun truthy :: "jsval \<Rightarrow> bool" where
  "truthy JUndefined = False"
| "truthy JNull = False"
| "truthy (JBool b) = b"
| "truthy (JNum n) = (\<not> is_zero n)"
| "truthy (JStr s) = (s \<noteq> [])"
| "truthy (JArr xs) = True"
| "truthy (JObj kvs) = True"
| "truthy (JFn f) = True"

text \<open>\<^verbatim>\<open>r\<close> first, then \<^verbatim>\<open>f\<close> on its value; a throw of \<open>r\<close> is the throw of the whole.\<close>

definition and_then :: "'e + 'a \<Rightarrow> ('a \<Rightarrow> 'e + 'b) \<Rightarrow> 'e + 'b" where
  "and_then r f = (case r of Inl e \<Rightarrow> Inl e | Inr v \<Rightarrow> f v)"

text \<open>\<^verbatim>\<open>xs.map(f)\<close> for an \<open>f\<close> that may throw: the first failure ends the loop.\<close>

fun map_throwing :: "('a \<Rightarrow> 'e + 'b) \<Rightarrow> 'a list \<Rightarrow> 'e + 'b list" where
  "map_throwing f [] = Inr []"
| "map_throwing f (r # rs) =
     (case f r of
        Inl e \<Rightarrow> Inl e
      | Inr c \<Rightarrow> (case map_throwing f rs of Inl e \<Rightarrow> Inl e | Inr cs \<Rightarrow> Inr (c # cs)))"

text \<open>
  \<^verbatim>\<open>`${v}`\<close> and \<^verbatim>\<open>new Error(v)\<close>: the conversion \<^verbatim>\<open>ToString\<close>. An array is its elements
  joined by commas, null and undefined elements as the empty string. An object of JSON
  is \<^verbatim>\<open>[object Object]\<close>, unless it has a member \<^verbatim>\<open>toString\<close> of its own: that member
  hides the method of \<^verbatim>\<open>Object.prototype\<close>, is not a function, and the conversion throws.
\<close>

fun to_string :: "jsval \<Rightarrow> js_error + string"
  and to_strings :: "jsval list \<Rightarrow> js_error + string list" where
  "to_string JUndefined = Inr ''undefined''"
| "to_string JNull = Inr ''null''"
| "to_string (JBool b) = Inr (if b then ''true'' else ''false'')"
| "to_string (JNum n) = Inr (number_to_string n)"
| "to_string (JStr s) = Inr s"
| "to_string (JArr xs) =
     (case to_strings xs of Inl e \<Rightarrow> Inl e | Inr ss \<Rightarrow> Inr (join_with '','' ss))"
| "to_string (JObj kvs) =
     (if ''toString'' \<in> set (map fst kvs)
      then Inl (TypeError ''Cannot convert object to primitive value'')
      else Inr ''[object Object]'')"
| "to_string (JFn f) = Inr (''function '' @ f @ ''() { [native code] }'')"
| "to_strings [] = Inr []"
| "to_strings (x # xs) =
     (case (if x = JUndefined \<or> x = JNull then Inr [] else to_string x) of
        Inl e \<Rightarrow> Inl e
      | Inr s \<Rightarrow> (case to_strings xs of Inl e \<Rightarrow> Inl e | Inr ss \<Rightarrow> Inr (s # ss)))"

text \<open>The string of a value whose conversion does not throw.\<close>

definition text_of :: "jsval \<Rightarrow> string" where
  "text_of v = (case to_string v of Inl e \<Rightarrow> [] | Inr s \<Rightarrow> s)"

definition converts :: "jsval \<Rightarrow> bool" where
  "converts v = (case to_string v of Inl e \<Rightarrow> False | Inr s \<Rightarrow> True)"

definition nullish :: "jsval \<Rightarrow> bool" where
  "nullish v = (v = JUndefined \<or> v = JNull)"

text \<open>
  \<^verbatim>\<open>v.name\<close> for a \<open>v\<close> that is neither null nor undefined, over the property names
  the program reads (title, match, used_ingredients, missing_ingredients, used, missing,
  directions, link, length, status, models_loaded, success, error, recipes): an object
  answers with its own property (the last member of that name, as \<^verbatim>\<open>JSON.parse\<close> keeps
  it), an array and a string with their length, a string also with its two methods of
  those names; anything else is undefined.
\<close>

fun read_prop :: "jsval \<Rightarrow> string \<Rightarrow> jsval" where
  "read_prop (JObj kvs) name =
     (case map_of (rev kvs) name of None \<Rightarrow> JUndefined | Some v \<Rightarrow> v)"
| "read_prop (JArr xs) name =
     (if name = ''length'' then JNum (whole (int (length xs))) else JUndefined)"
| "read_prop (JStr s) name =
     (if name = ''length'' then JNum (whole (int (utf16_length s)))
      else if name = ''match'' \<or> name = ''link'' then JFn name
      else JUndefined)"
| "read_prop v name = JUndefined"

text \<open>\<^verbatim>\<open>v === 0\<close>: a number that is zero.\<close>

fun is_zero_number :: "jsval \<Rightarrow> bool" where
  "is_zero_number (JNum n) = is_zero n"
| "is_zero_number v = False"

text \<open>\<^verbatim>\<open>v.name\<close> in general: reading a property of null or undefined throws.\<close>

definition get_prop :: "jsval \<Rightarrow> string \<Rightarrow> js_error + jsval" where
  "get_prop v name =
     (if nullish v
      then Inl (TypeError (''Cannot read properties of '' @
                           (if v = JNull then ''null'' else ''undefined'') @
                           '' (reading '' @ apos @ name @ apos @ '')''))
      else Inr (read_prop v name))"

text \<open>\<^verbatim>\<open>a || b\<close> on values.\<close>

definition or_else :: "jsval \<Rightarrow> jsval \<Rightarrow> jsval" where
  "or_else a b = (if truthy a then a else b)"

section \<open>Rendering, class-based variant\<close>

definition no_results :: string where
  \<open>no_results = ''<p class="no-results">Nenhuma receita encontrada. Tente outros ingredientes!</p>''\<close>

definition has_li :: "string \<Rightarrow> string" where
  \<open>has_li s = ''<li class="ingredient has">'' @ s @ ''</li>''\<close>

definition missing_li :: "string \<Rightarrow> string" where
  \<open>missing_li s = ''<li class="ingredient missing">'' @ s @ ''</li>''\<close>

text \<open>The two arrow functions given to \<^verbatim>\<open>map\<close>: the item is converted, then wrapped.\<close>

definition has_item :: "jsval \<Rightarrow> js_error + string" where
  "has_item i = and_then (to_string i) (\<lambda>s. Inr (has_li s))"

definition missing_item :: "jsval \<Rightarrow> js_error + string" where
  "missing_item i = and_then (to_string i) (\<lambda>s. Inr (missing_li s))"

text \<open>
  \<^verbatim>\<open>v?.map(f).join('')\<close>: the optional chain stops at a null or undefined \<open>v\<close> and the
  whole expression is undefined; an array is mapped and joined; anything else has no
  \<^verbatim>\<open>map\<close> to call. \<open>what\<close> is the source text of the receiver, for the message.
\<close>

definition opt_map_join ::
  "string \<Rightarrow> jsval \<Rightarrow> (jsval \<Rightarrow> js_error + string) \<Rightarrow> js_error + jsval" where
  "opt_map_join what v f =
     (if nullish v then Inr JUndefined
      else case v of
        JArr xs \<Rightarrow> and_then (map_throwing f xs) (\<lambda>ss. Inr (JStr (concat ss)))
      | _ \<Rightarrow> Inl (TypeError (what @ ''?.map is not a function'')))"

definition match_span :: "string \<Rightarrow> string" where
  \<open>match_span m =
     ''<span class="match-percentage">'' @ m @ ''% compat'' @ [CHR 0xC3, CHR 0xAD] @ ''vel</span>''\<close>

definition used_section :: "string \<Rightarrow> string" where
  \<open>used_section items =
     ''<div class="ingredients-section">'' @ nl @
     sp 20 @ ''<h3>'' @ [CHR 0xE2, CHR 0x9C, CHR 0x85] @ '' Voc'' @ [CHR 0xC3, CHR 0xAA] @
       '' tem:</h3>'' @ nl @
     sp 20 @ ''<ul>'' @ nl @
     sp 24 @ items @ nl @
     sp 20 @ ''</ul>'' @ nl @
     sp 16 @ ''</div>''\<close>

definition missing_section :: "string \<Rightarrow> string" where
  \<open>missing_section items =
     ''<div class="ingredients-section">'' @ nl @
     sp 20 @ ''<h3>'' @ [CHR 0xF0, CHR 0x9F, CHR 0x9B, CHR 0x92] @
       '' Precisa comprar:</h3>'' @ nl @
     sp 20 @ ''<ul>'' @ nl @
     sp 24 @ items @ nl @
     sp 20 @ ''</ul>'' @ nl @
     sp 16 @ ''</div>''\<close>

definition directions_block :: "string \<Rightarrow> string" where
  \<open>directions_block d =
     nl @
     sp 16 @ ''<div class="directions">'' @ nl @
     sp 20 @ ''<h3>'' @ [CHR 0xF0, CHR 0x9F, CHR 0x93, CHR 0x9D] @
       '' Modo de preparo:</h3>'' @ nl @
     sp 20 @ ''<p>'' @ d @ ''</p>'' @ nl @
     sp 16 @ ''</div>'' @ nl @
     sp 12\<close>

definition link_block :: "string \<Rightarrow> string" where
  \<open>link_block l =
     ''<a href="'' @ l @ ''" target="_blank" class="recipe-link">'' @
     [CHR 0xF0, CHR 0x9F, CHR 0x94, CHR 0x97] @ '' Ver receita completa</a>''\<close>

text \<open>
  The template literal of the card, its six holes filled: title, match, the two list
  items, the directions block and the link.
\<close>

definition card_markup ::
  "string \<Rightarrow> string \<Rightarrow> string \<Rightarrow> string \<Rightarrow> string \<Rightarrow> string \<Rightarrow> string" where
  \<open>card_markup title m used missing dirs lnk =
     nl @
     sp 8 @ ''<div class="recipe-card">'' @ nl @
     sp 12 @ ''<h2 class="recipe-title">'' @ title @ ''</h2>'' @ nl @
     sp 12 @ match_span m @ nl @
     sp 12 @ nl @
     sp 12 @ ''<div class="ingredients-list">'' @ nl @
     sp 16 @ used_section used @ nl @
     sp 16 @ nl @
     sp 16 @ missing_section missing @ nl @
     sp 12 @ ''</div>'' @ nl @
     sp 12 @ nl @
     sp 12 @ dirs @ nl @
     sp 12 @ nl @
     sp 12 @ lnk @ nl @
     sp 8 @ ''</div>'' @ nl @
     sp 4\<close>

definition used_placeholder :: string where
  \<open>used_placeholder = ''<li>Nenhum ingrediente principal</li>''\<close>

definition missing_placeholder :: string where
  \<open>missing_placeholder = ''<li>Nada!</li>''\<close>

text \<open>
  \<^verbatim>\<open>cond ? `...${v}...` : ''\<close>: the block of a truthy \<open>v\<close>, whose conversion may throw,
  and nothing for a falsy one.
\<close>

definition optional_block :: "jsval \<Rightarrow> (string \<Rightarrow> string) \<Rightarrow> js_error + string" where
  "optional_block v block =
     (if truthy v then and_then (to_string v) (\<lambda>s. Inr (block s)) else Inr [])"

text \<open>
  The arrow function given to \<^verbatim>\<open>recipes.map\<close>: one card for one recipe. Each hole of
  the template is evaluated and converted before the next one, so the first failure is
  the one thrown.
\<close>

definition recipe_card :: "jsval \<Rightarrow> js_error + string" where
  "recipe_card recipe =
     and_then (get_prop recipe ''title'') (\<lambda>title.
     and_then (to_string title) (\<lambda>t.
     and_then (to_string (read_prop recipe ''match'')) (\<lambda>m.
     and_then (opt_map_join ''recipe.used_ingredients''
                 (read_prop recipe ''used_ingredients'') has_item) (\<lambda>used.
     and_then (to_string (or_else used (JStr used_placeholder))) (\<lambda>u.
     and_then (opt_map_join ''recipe.missing_ingredients''
                 (read_prop recipe ''missing_ingredients'') missing_item) (\<lambda>missing.
     and_then (to_string (or_else missing (JStr missing_placeholder))) (\<lambda>mi.
     and_then (optional_block (read_prop recipe ''directions'') directions_block) (\<lambda>d.
     and_then (optional_block (read_prop recipe ''link'') link_block) (\<lambda>l.
       Inr (card_markup t m u mi d l))))))))))"

text \<open>
  The markup \<^verbatim>\<open>displayResults\<close> computes for the results area, or the error it throws
  before assigning anything.
\<close>

definition render :: "jsval \<Rightarrow> js_error + string" where
  "render recipes =
     (if \<not> truthy recipes \<or> is_zero_number (read_prop recipes ''length'') then Inr no_results
      else case recipes of
        JArr rs \<Rightarrow>
          (case map_throwing recipe_card rs of
             Inl e \<Rightarrow> Inl e
           | Inr cards \<Rightarrow> Inr (concat cards))
      | _ \<Rightarrow> Inl (TypeError ''recipes.map is not a function''))"

section \<open>The page, the client and the network\<close>

record request =
  url :: string
  http_method :: string
  headers :: "(string \<times> string) list"
  body :: "jsval option"

text \<open>
  What the program reads of a response: the status line and the outcome of
  \<^verbatim>\<open>response.json()\<close> (the parsed body, or the error of a body that is not JSON).
  \<open>body\<close> of a request is the value handed to \<^verbatim>\<open>JSON.stringify\<close>.
\<close>

record response =
  status :: nat
  statusText :: string
  json :: "js_error + jsval"

text \<open>\<^verbatim>\<open>response.ok\<close>: the status is in the range 200 to 299.\<close>

definition ok :: "response \<Rightarrow> bool" where
  "ok r = (200 \<le> status r \<and> status r \<le> 299)"

text \<open>
  A \<^verbatim>\<open>fetch\<close> either rejects (the network failed) or resolves with a response. The
  remote service is a function of the request; a call that never settles is outside the
  model, and so is the console.
\<close>

datatype fetch_result = Rejected js_error | Resolved response

type_synonym server = "request \<Rightarrow> fetch_result"

text \<open>
  The state the handlers work on: the fields of the one \<^verbatim>\<open>RecipeRecommender\<close>, the
  requests fetched so far (oldest first), and what the program touches of the page: the
  text input, the button, the results area and the alerts shown.
\<close>

record world =
  apiUrl :: string
  initialized :: bool
  googleDriveUrl :: string
  calls :: "request list"
  input_value :: string
  btn_disabled :: bool
  btn_text :: string
  results_html :: string
  alerts :: "string list"

text \<open>
  The constructor's fields, on a page whose input is empty and whose button is enabled
  (the HTML is not among the sources).
\<close>

definition new_page :: "string \<Rightarrow> world" where
  "new_page hostname =
     \<lparr> apiUrl = (if hostname = ''localhost'' then ''http://localhost:5000/api'' else ''/api''),
       initialized = False,
       googleDriveUrl =
         ''https://drive.google.com/drive/folders/1poHpksILFm9uIvBfJLogGzqbyUSQTFrt?usp=drive_link'',
       calls = [],
       input_value = [],
       btn_disabled = False,
       btn_text = ''Sugerir Receitas'',
       results_html = [],
       alerts = [] \<rparr>"

definition json_headers :: "(string \<times> string) list" where
  "json_headers = [(''Content-Type'', ''application/json'')]"

definition health_request :: "world \<Rightarrow> request" where
  "health_request w =
     \<lparr> url = apiUrl w @ ''/health'', http_method = ''GET'', headers = [], body = None \<rparr>"

definition download_request :: "world \<Rightarrow> request" where
  "download_request w =
     \<lparr> url = apiUrl w @ ''/download-models'', http_method = ''POST'', headers = json_headers,
       body = Some (JObj [(''drive_url'', JStr (googleDriveUrl w))]) \<rparr>"

definition suggest_request :: "world \<Rightarrow> jsval \<Rightarrow> request" where
  "suggest_request w ingredients =
     \<lparr> url = apiUrl w @ ''/suggest'', http_method = ''POST'', headers = json_headers,
       body = Some (JObj [(''ingredients'', ingredients)]) \<rparr>"

definition logged :: "request \<Rightarrow> world \<Rightarrow> world" where
  "logged req w = w\<lparr>calls := calls w @ [req]\<rparr>"

definition unknown_download_error :: string where
  "unknown_download_error = ''Erro desconhecido ao baixar modelos''"

text \<open>
  \<^verbatim>\<open>RecipeRecommender.init\<close>. The \<^verbatim>\<open>catch\<close> only logs and rethrows, so every failure
  inside the \<^verbatim>\<open>try\<close> is the result.
\<close>

definition init :: "server \<Rightarrow> world \<Rightarrow> (js_error + bool) \<times> world" where
  "init srv w =
     (if initialized w then (Inr True, w)
      else
        let w1 = logged (health_request w) w in
        case srv (health_request w) of
          Rejected e \<Rightarrow> (Inl e, w1)
        | Resolved response \<Rightarrow>
        (case json response of
          Inl e \<Rightarrow> (Inl e, w1)
        | Inr data \<Rightarrow>
        (case get_prop data ''status'' of
          Inl e \<Rightarrow> (Inl e, w1)
        | Inr st \<Rightarrow>
            if st = JStr ''ok'' \<and> truthy (read_prop data ''models_loaded'')
            then (Inr True, w1\<lparr>initialized := True\<rparr>)
            else
              let w2 = logged (download_request w) w1 in
             (case srv (download_request w) of
                Rejected e \<Rightarrow> (Inl e, w2)
              | Resolved response \<Rightarrow>
                  if \<not> ok response
                  then (Inl (Error (''Erro ao baixar modelos: '' @ statusText response)), w2)
                  else
                   (case json response of
                      Inl e \<Rightarrow> (Inl e, w2)
                    | Inr data \<Rightarrow>
                   (case get_prop data ''success'' of
                      Inl e \<Rightarrow> (Inl e, w2)
                    | Inr success \<Rightarrow>
                        if truthy success then (Inr True, w2\<lparr>initialized := True\<rparr>)
                        else
                         (case to_string (or_else (read_prop data ''error'')
                                            (JStr unknown_download_error)) of
                            Inl e \<Rightarrow> (Inl e, w2)
                          | Inr msg \<Rightarrow> (Inl (Error msg), w2))))))))"

text \<open>
  \<^verbatim>\<open>RecipeRecommender.suggest\<close>. The call of \<^verbatim>\<open>init\<close> is before the \<^verbatim>\<open>try\<close>; its
  failure is the failure of \<^verbatim>\<open>suggest\<close> and no suggestion is requested.
\<close>

definition suggest :: "server \<Rightarrow> jsval \<Rightarrow> world \<Rightarrow> (js_error + jsval) \<times> world" where
  "suggest srv ingredients w =
     (case (if \<not> initialized w then init srv w else (Inr True, w)) of
        (Inl e, w1) \<Rightarrow> (Inl e, w1)
      | (Inr _, w1) \<Rightarrow>
          let w2 = logged (suggest_request w1 ingredients) w1 in
         (case srv (suggest_request w1 ingredients) of
            Rejected e \<Rightarrow> (Inl e, w2)
          | Resolved response \<Rightarrow>
              if \<not> ok response
              then (Inl (Error (''HTTP '' @ number_to_string (whole (int (status response))) @
                                '': '' @ statusText response)), w2)
              else
               (case json response of
                  Inl e \<Rightarrow> (Inl e, w2)
                | Inr data \<Rightarrow>
               (case get_prop data ''recipes'' of
                  Inl e \<Rightarrow> (Inl e, w2)
                | Inr recipes \<Rightarrow> (Inr recipes, w2)))))"

text \<open>
  \<^verbatim>\<open>displayResults\<close> of the class-based variant: the markup is assigned in one step, so
  a throw leaves the results area as it was.
\<close>

definition displayResults :: "jsval \<Rightarrow> world \<Rightarrow> js_error option \<times> world" where
  "displayResults recipes w =
     (case render recipes of
        Inl e \<Rightarrow> (Some e, w)
      | Inr html \<Rightarrow> (None, w\<lparr>results_html := html\<rparr>))"

section \<open>Whitespace\<close>

text \<open>
  The code points \<^verbatim>\<open>String.prototype.trim\<close> removes, in UTF-8: tab, line feed, vertical
  tab, form feed, carriage return, space, U+00A0, U+1680, U+2000 to U+200A, U+2028,
  U+2029, U+202F, U+205F, U+3000 and U+FEFF.
\<close>

definition white_space :: "string list" where
  "white_space =
     [[CHR 0x09], [CHR 0x0A], [CHR 0x0B], [CHR 0x0C], [CHR 0x0D], [CHR 0x20],
      [CHR 0xC2, CHR 0xA0],
      [CHR 0xE1, CHR 0x9A, CHR 0x80],
      [CHR 0xE2, CHR 0x80, CHR 0x80], [CHR 0xE2, CHR 0x80, CHR 0x81],
      [CHR 0xE2, CHR 0x80, CHR 0x82], [CHR 0xE2, CHR 0x80, CHR 0x83],
      [CHR 0xE2, CHR 0x80, CHR 0x84], [CHR 0xE2, CHR 0x80, CHR 0x85],
      [CHR 0xE2, CHR 0x80, CHR 0x86], [CHR 0xE2, CHR 0x80, CHR 0x87],
      [CHR 0xE2, CHR 0x80, CHR 0x88], [CHR 0xE2, CHR 0x80, CHR 0x89],
      [CHR 0xE2, CHR 0x80, CHR 0x8A],
      [CHR 0xE2, CHR 0x80, CHR 0xA8], [CHR 0xE2, CHR 0x80, CHR 0xA9],
      [CHR 0xE2, CHR 0x80, CHR 0xAF],
      [CHR 0xE2, CHR 0x81, CHR 0x9F],
      [CHR 0xE3, CHR 0x80, CHR 0x80],
      [CHR 0xEF, CHR 0xBB, CHR 0xBF]]"

text \<open>Removing, from the front of \<open>s\<close>, every leading occurrence of one of \<open>ps\<close>.\<close>

function strip :: "string list \<Rightarrow> string \<Rightarrow> string" where
  "strip ps s =
     (case find (\<lambda>p. p \<noteq> [] \<and> prefix p s) ps of
        None \<Rightarrow> s
      | Some p \<Rightarrow> strip ps (drop (length p) s))"
  by pat_completeness auto
termination
proof (relation "measure (\<lambda>(ps, s). length s)")
  show "wf (measure (\<lambda>(ps, s). length s))" by simp
next
  fix ps :: "string list" and s p :: string
  assume "find (\<lambda>p. p \<noteq> [] \<and> prefix p s) ps = Some p"
  then have "p \<noteq> []" and "prefix p s"
    by (auto simp: find_Some_iff)
  then have "0 < length p" and "length p \<le> length s"
    by (auto simp: prefix_length_le)
  then have "length s - length p < length s"
    by linarith
  then show "((ps, drop (length p) s), (ps, s)) \<in> measure (\<lambda>(ps, s). length s)"
    by simp
qed

declare strip.simps [simp del]

text \<open>\<^verbatim>\<open>s.trim()\<close>: from the front, then from the back.\<close>

definition trim :: "string \<Rightarrow> string" where
  "trim s = rev (strip (map rev white_space) (rev (strip white_space s)))"

text \<open>A string that is empty or made of whitespace only.\<close>

inductive ws_only :: "string \<Rightarrow> bool" where
  ws_empty: "ws_only []"
| ws_more: "p \<in> set white_space \<Longrightarrow> ws_only s \<Longrightarrow> ws_only (p @ s)"

section \<open>The handlers of the class-based variant\<close>

definition ingredients_prompt :: string where
  "ingredients_prompt = ''Por favor, digite alguns ingredientes!''"

definition error_markup :: "string \<Rightarrow> js_error \<Rightarrow> string" where
  \<open>error_markup label e = ''<p class="error">'' @ label @ message e @ ''</p>''\<close>

text \<open>
  The \<^verbatim>\<open>DOMContentLoaded\<close> listener, up to the registration of the two other
  listeners.
\<close>

definition dom_content_loaded :: "server \<Rightarrow> world \<Rightarrow> world" where
  \<open>dom_content_loaded srv w =
     (case init srv (w\<lparr>results_html := ''<p class="loading">Inicializando sistema...</p>''\<rparr>) of
        (Inr _, w1) \<Rightarrow>
          w1\<lparr>btn_disabled := False,
             results_html :=
               ''<p class="success">Sistema pronto! Digite seus ingredientes acima.</p>''\<rparr>
      | (Inl e, w1) \<Rightarrow>
          w1\<lparr>results_html :=
               error_markup (''Sistema indispon'' @ [CHR 0xC3, CHR 0xAD] @ ''vel: '') e,
             btn_disabled := True\<rparr>)\<close>

text \<open>The \<^verbatim>\<open>click\<close> listener of the button: \<^verbatim>\<open>try\<close>, \<^verbatim>\<open>catch\<close>, \<^verbatim>\<open>finally\<close>.\<close>

definition click_handler :: "server \<Rightarrow> world \<Rightarrow> world" where
  \<open>click_handler srv w =
     (let ingredients = trim (input_value w) in
      if \<not> truthy (JStr ingredients)
      then w\<lparr>alerts := alerts w @ [ingredients_prompt]\<rparr>
      else
        let w1 = w\<lparr>btn_disabled := True,
                   btn_text := ''Buscando...'',
                   results_html := ''<p class="loading">Analisando ingredientes...</p>''\<rparr>;
            w3 = (case suggest srv (JStr ingredients) w1 of
                    (Inl e, w2) \<Rightarrow> w2\<lparr>results_html := error_markup ''Erro: '' e\<rparr>
                  | (Inr recipes, w2) \<Rightarrow>
                      (case displayResults recipes w2 of
                         (Some e, w2') \<Rightarrow> w2'\<lparr>results_html := error_markup ''Erro: '' e\<rparr>
                       | (None, w2') \<Rightarrow> w2'))
        in w3\<lparr>btn_disabled := False, btn_text := ''Sugerir Receitas''\<rparr>)\<close>

text \<open>The \<^verbatim>\<open>keypress\<close> listener of the input: Enter clicks an enabled button.\<close>

definition keypress_handler :: "server \<Rightarrow> string \<Rightarrow> world \<Rightarrow> world" where
  "keypress_handler srv key w =
     (if key = ''Enter'' \<and> \<not> btn_disabled w then click_handler srv w else w)"

section \<open>The procedural variant\<close>

definition API_URL :: string where
  "API_URL = ''https://sua-api.onrender.com''"

text \<open>
  \<^verbatim>\<open>v.map(f).join('')\<close>, without the optional chain: reading \<^verbatim>\<open>map\<close> of null or
  undefined throws.
\<close>

definition map_join ::
  "string \<Rightarrow> jsval \<Rightarrow> (jsval \<Rightarrow> js_error + string) \<Rightarrow> js_error + string" where
  "map_join what v f =
     (case get_prop v ''map'' of
        Inl e \<Rightarrow> Inl e
      | Inr _ \<Rightarrow>
         (case v of
            JArr xs \<Rightarrow> and_then (map_throwing f xs) (\<lambda>ss. Inr (concat ss))
          | _ \<Rightarrow> Inl (TypeError (what @ ''.map is not a function''))))"

definition has_li_script :: "string \<Rightarrow> string" where
  \<open>has_li_script s =
     ''<li class="ingredient has">'' @ [CHR 0xE2, CHR 0x9C, CHR 0x94] @ '' '' @ s @ ''</li>''\<close>

definition missing_li_script :: "string \<Rightarrow> string" where
  \<open>missing_li_script s =
     ''<li class="ingredient missing">'' @ [CHR 0xE2, CHR 0x9C, CHR 0x96] @ '' '' @ s @
     ''</li>''\<close>

definition has_item_script :: "jsval \<Rightarrow> js_error + string" where
  "has_item_script ing = and_then (to_string ing) (\<lambda>s. Inr (has_li_script s))"

definition missing_item_script :: "jsval \<Rightarrow> js_error + string" where
  "missing_item_script ing = and_then (to_string ing) (\<lambda>s. Inr (missing_li_script s))"

definition match_span_script :: "string \<Rightarrow> string" where
  \<open>match_span_script m = ''<span class="match-percentage">'' @ m @ ''%</span>''\<close>

definition directions_block_script :: "string \<Rightarrow> string" where
  \<open>directions_block_script d =
     ''<div class="directions"><p>'' @ [CHR 0xF0, CHR 0x9F, CHR 0x93, CHR 0x9D] @
     '' <strong>Modo de preparo:</strong> '' @ d @ ''</p></div>''\<close>

definition card_markup_script ::
  "string \<Rightarrow> string \<Rightarrow> string \<Rightarrow> string \<Rightarrow> string \<Rightarrow> string \<Rightarrow> string" where
  \<open>card_markup_script title m used missing dirs lnk =
     nl @
     sp 12 @ ''<h2 class="recipe-title">'' @ title @ '' '' @ match_span_script m @ ''</h2>'' @ nl @
     sp 12 @ nl @
     sp 12 @ ''<div class="ingredients-grid">'' @ nl @
     sp 16 @ ''<div class="ingredients-used">'' @ nl @
     sp 20 @ ''<h3>'' @ [CHR 0xE2, CHR 0x9C, CHR 0x85] @ '' Voc'' @ [CHR 0xC3, CHR 0xAA] @
       '' tem:</h3>'' @ nl @
     sp 20 @ ''<ul>'' @ nl @
     sp 24 @ used @ nl @
     sp 20 @ ''</ul>'' @ nl @
     sp 16 @ ''</div>'' @ nl @
     sp 16 @ nl @
     sp 16 @ ''<div class="ingredients-missing">'' @ nl @
     sp 20 @ ''<h3>'' @ [CHR 0xE2, CHR 0x9D, CHR 0x8C] @ '' Faltando:</h3>'' @ nl @
     sp 20 @ ''<ul>'' @ nl @
     sp 24 @ missing @ nl @
     sp 20 @ ''</ul>'' @ nl @
     sp 16 @ ''</div>'' @ nl @
     sp 12 @ ''</div>'' @ nl @
     sp 12 @ nl @
     sp 12 @ dirs @ nl @
     sp 12 @ nl @
     sp 12 @ lnk @ nl @
     sp 8\<close>

text \<open>The markup assigned to one card's \<^verbatim>\<open>innerHTML\<close>, inside \<^verbatim>\<open>forEach\<close>.\<close>

definition recipe_card_script :: "jsval \<Rightarrow> js_error + string" where
  "recipe_card_script recipe =
     and_then (get_prop recipe ''title'') (\<lambda>title.
     and_then (to_string title) (\<lambda>t.
     and_then (to_string (read_prop recipe ''match'')) (\<lambda>m.
     and_then (map_join ''recipe.used'' (read_prop recipe ''used'') has_item_script) (\<lambda>used.
     and_then (map_join ''recipe.missing'' (read_prop recipe ''missing'')
                 missing_item_script) (\<lambda>missing.
     and_then (optional_block (read_prop recipe ''directions'') directions_block_script) (\<lambda>d.
     and_then (optional_block (read_prop recipe ''link'') link_block) (\<lambda>l.
       Inr (card_markup_script t m used missing d l))))))))"

text \<open>
  \<^verbatim>\<open>forEach\<close>: each card is a \<^verbatim>\<open>div\<close> of class \<^verbatim>\<open>recipe-card\<close> appended to the results
  area, which then holds the cards appended before a throw.
\<close>

definition card_element :: "string \<Rightarrow> string" where
  \<open>card_element inner = ''<div class="recipe-card">'' @ inner @ ''</div>''\<close>

fun append_cards :: "jsval list \<Rightarrow> world \<Rightarrow> js_error option \<times> world" where
  "append_cards [] w = (None, w)"
| "append_cards (recipe # rest) w =
     (case recipe_card_script recipe of
        Inl e \<Rightarrow> (Some e, w)
      | Inr inner \<Rightarrow>
          append_cards rest (w\<lparr>results_html := results_html w @ card_element inner\<rparr>))"

definition displayResults_script :: "jsval \<Rightarrow> world \<Rightarrow> js_error option \<times> world" where
  "displayResults_script recipes w =
     (let w1 = w\<lparr>results_html := []\<rparr> in
      case get_prop recipes ''length'' of
        Inl e \<Rightarrow> (Some e, w1)
      | Inr len \<Rightarrow>
          if is_zero_number len then (None, w1\<lparr>results_html := no_results\<rparr>)
          else
           (case recipes of
              JArr rs \<Rightarrow> append_cards rs w1
            | _ \<Rightarrow> (Some (TypeError ''recipes.forEach is not a function''), w1)))"

definition suggestRecipes_request :: "string \<Rightarrow> request" where
  "suggestRecipes_request input =
     \<lparr> url = API_URL @ ''/suggest'', http_method = ''POST'', headers = json_headers,
       body = Some (JObj [(''ingredients'', JStr input)]) \<rparr>"

text \<open>\<^verbatim>\<open>suggestRecipes\<close>: every failure inside the \<^verbatim>\<open>try\<close> ends in the results area.\<close>

definition suggestRecipes :: "server \<Rightarrow> world \<Rightarrow> world" where
  \<open>suggestRecipes srv w =
     (let input = input_value w in
      if \<not> truthy (JStr (trim input))
      then w\<lparr>alerts := alerts w @ [ingredients_prompt]\<rparr>
      else
        let w1 = w\<lparr>results_html := ''<p class="loading">Buscando receitas...</p>''\<rparr>;
            w2 = logged (suggestRecipes_request input) w1
        in
        case
          (case srv (suggestRecipes_request input) of
             Rejected e \<Rightarrow> (Some e, w2)
           | Resolved response \<Rightarrow>
               if \<not> ok response then (Some (Error ''Erro ao buscar receitas''), w2)
               else
                (case json response of
                   Inl e \<Rightarrow> (Some e, w2)
                 | Inr data \<Rightarrow>
                (case get_prop data ''recipes'' of
                   Inl e \<Rightarrow> (Some e, w2)
                 | Inr recipes \<Rightarrow> displayResults_script recipes w2)))
        of
          (None, w3) \<Rightarrow> w3
        | (Some e, w3) \<Rightarrow>
            w3\<lparr>results_html := error_markup ''Erro ao buscar receitas: '' e\<rparr>)\<close>

section \<open>Sample pages, responses and recipes\<close>

definition json_response :: "nat \<Rightarrow> string \<Rightarrow> jsval \<Rightarrow> response" where
  "json_response code text v = \<lparr> status = code, statusText = text, json = Inr v \<rparr>"

text \<open>A service co-deployed with the page: one response for each of the three endpoints.\<close>

definition example_server :: "response \<Rightarrow> response \<Rightarrow> response \<Rightarrow> server" where
  "example_server health download suggestion req =
     (if url req = ''/api/health'' then Resolved health
      else if url req = ''/api/download-models'' then Resolved download
      else if url req = ''/api/suggest'' then Resolved suggestion
      else Rejected (TypeError ''Failed to fetch''))"

definition offline :: server where
  "offline req = Rejected (TypeError ''Failed to fetch'')"

definition health_ready :: response where
  "health_ready =
     json_response 200 ''OK'' (JObj [(''status'', JStr ''ok''), (''models_loaded'', JBool True)])"

definition health_pending :: response where
  "health_pending =
     json_response 200 ''OK''
       (JObj [(''status'', JStr ''pending''), (''models_loaded'', JBool False)])"

definition download_done :: response where
  "download_done = json_response 200 ''OK'' (JObj [(''success'', JBool True)])"

definition server_error :: "jsval \<Rightarrow> response" where
  "server_error v = json_response 500 ''Internal Server Error'' v"

definition ready_page :: world where
  "ready_page = (new_page ''example.org'')\<lparr>initialized := True, input_value := '' egg, flour ''\<rparr>"

definition always :: "response \<Rightarrow> server" where
  "always r req = Resolved r"

definition over_recipe :: jsval where
  "over_recipe =
     JObj [(''title'', JStr ''Bolo''), (''match'', JNum (whole 150)),
           (''used_ingredients'', JArr [JStr ''egg'']),
           (''missing_ingredients'', JArr [JStr ''sugar''])]"

definition over_recipe_script :: jsval where
  "over_recipe_script =
     JObj [(''title'', JStr ''Bolo''), (''match'', JNum (whole 150)),
           (''used'', JArr [JStr ''egg'']), (''missing'', JArr [JStr ''sugar''])]"

text \<open>An array whose elements all convert to strings.\<close>

fun items_convert :: "jsval \<Rightarrow> bool" where
  "items_convert (JArr xs) = list_all converts xs"
| "items_convert v = False"

text \<open>
  A recipe the class-based card can be made of: a value with properties, whose title,
  match, directions and link convert to strings (as every string, number, boolean, null
  and absent field does), and whose two ingredient lists are each absent (undefined or
  null) or an array of such values.
\<close>

definition recipe_shaped :: "jsval \<Rightarrow> bool" where
  "recipe_shaped r =
     (\<not> nullish r
      \<and> converts (read_prop r ''title'') \<and> converts (read_prop r ''match'')
      \<and> (nullish (read_prop r ''used_ingredients'')
           \<or> items_convert (read_prop r ''used_ingredients''))
      \<and> (nullish (read_prop r ''missing_ingredients'')
           \<or> items_convert (read_prop r ''missing_ingredients''))
      \<and> converts (read_prop r ''directions'') \<and> converts (read_prop r ''link''))"

text \<open>The same for the procedural card, whose two lists have to be there.\<close>

definition recipe_shaped_script :: "jsval \<Rightarrow> bool" where
  "recipe_shaped_script r =
     (\<not> nullish r
      \<and> converts (read_prop r ''title'') \<and> converts (read_prop r ''match'')
      \<and> items_convert (read_prop r ''used'')
      \<and> items_convert (read_prop r ''missing'')
      \<and> converts (read_prop r ''directions'') \<and> converts (read_prop r ''link''))"

definition sparse_recipe :: jsval where
  "sparse_recipe = JObj [(''title'', JStr ''Bolo''), (''match'', JNum (whole 87))]"

definition listed_recipe_script :: jsval where
  "listed_recipe_script =
     JObj [(''title'', JStr ''Bolo''), (''match'', JNum (whole 87)),
           (''used'', JArr [JStr ''egg'', JStr ''flour'']), (''missing'', JArr [JStr ''sugar''])]"

definition download_refused :: response where
  "download_refused =
     server_error (JObj [(''success'', JBool False), (''error'', JStr ''disk full'')])"

definition download_declined :: "jsval \<Rightarrow> response" where
  "download_declined v = json_response 200 ''OK'' v"

definition sample_query :: string where
  "sample_query = ''egg, flour''"

section \<open>Facts about lists and markup\<close>

lemma and_then_simps [simp]:
  "and_then (Inr v) f = f v" "and_then (Inl e) f = Inl e"
  by (simp_all add: and_then_def)

lemma and_then_Inr_iff: "and_then r f = Inr y \<longleftrightarrow> (\<exists>v. r = Inr v \<and> f v = Inr y)"
  by (cases r) simp_all

lemma sublist_appL: "sublist x ys \<Longrightarrow> sublist x (zs @ ys)"
  by (metis append.assoc sublist_def)

lemma sublist_trans: "sublist x y \<Longrightarrow> sublist y z \<Longrightarrow> sublist x z"
  using sublist_order.order_trans by blast

lemma sublist_concat_mem: "c \<in> set cs \<Longrightarrow> sublist c (concat cs)"
proof -
  assume "c \<in> set cs"
  then obtain as bs where "cs = as @ c # bs"
    by (auto simp: in_set_conv_decomp)
  then have "concat cs = concat as @ c @ concat bs" by simp
  then show ?thesis by (metis sublist_appendI)
qed

lemma map_throwing_mem:
  "map_throwing f rs = Inr cs \<Longrightarrow> r \<in> set rs \<Longrightarrow> \<exists>c \<in> set cs. f r = Inr c"
proof (induction rs arbitrary: cs)
  case Nil
  then show ?case by simp
next
  case (Cons a rs)
  then show ?case
    by (auto split: sum.splits)
qed

lemma map_throwing_map:
  "\<forall>r \<in> set rs. f r = Inr (g r) \<Longrightarrow> map_throwing f rs = Inr (map g rs)"
  by (induction rs) auto

lemma card_markup_shows_match: "sublist (match_span m) (card_markup t m u mi d l)"
  unfolding card_markup_def
  by (rule sublist_append_rightI | rule sublist_appL)+

lemma card_markup_script_shows_match:
  "sublist (match_span_script m) (card_markup_script t m u mi d l)"
  unfolding card_markup_script_def
  by (rule sublist_append_rightI | rule sublist_appL)+

lemma recipe_card_shows_match:
  assumes "recipe_card r = Inr c"
  shows "\<exists>m. to_string (read_prop r ''match'') = Inr m \<and> sublist (match_span m) c"
  using assms unfolding recipe_card_def and_then_Inr_iff
  by (auto simp: card_markup_shows_match)

lemma recipe_card_script_shows_match:
  assumes "recipe_card_script r = Inr c"
  shows "\<exists>m. to_string (read_prop r ''match'') = Inr m \<and> sublist (match_span_script m) c"
  using assms unfolding recipe_card_script_def and_then_Inr_iff
  by (auto simp: card_markup_script_shows_match)

lemma li_nonempty [simp]:
  "has_li s \<noteq> []" "missing_li s \<noteq> []"
  "has_li_script s \<noteq> []" "missing_li_script s \<noteq> []"
  by (simp_all add: has_li_def missing_li_def has_li_script_def missing_li_script_def)

lemma length_not_zero: "rs \<noteq> [] \<Longrightarrow> \<not> is_zero (whole (int (length rs)))"
  by (simp add: whole_def)

lemma render_nonempty_array:
  "rs \<noteq> [] \<Longrightarrow>
   render (JArr rs) =
     (case map_throwing recipe_card rs of Inl e \<Rightarrow> Inl e | Inr cards \<Rightarrow> Inr (concat cards))"
  by (simp add: render_def length_not_zero)

lemma render_card_in_markup:
  assumes "render (JArr rs) = Inr html" and "r \<in> set rs"
  shows "\<exists>c. recipe_card r = Inr c \<and> sublist c html"
proof -
  from assms(2) have "rs \<noteq> []" by auto
  with assms(1) obtain cards where cs: "map_throwing recipe_card rs = Inr cards"
    and html: "html = concat cards"
    by (auto simp: render_nonempty_array split: sum.splits)
  from map_throwing_mem [OF cs assms(2)] obtain c
    where "c \<in> set cards" "recipe_card r = Inr c"
    by blast
  then show ?thesis
    using html sublist_concat_mem by blast
qed

lemma append_cards_prefix:
  "append_cards rs w = (None, w') \<Longrightarrow> prefix (results_html w) (results_html w')"
proof (induction rs arbitrary: w)
  case Nil
  then show ?case by simp
next
  case (Cons a rs)
  then obtain inner where a: "recipe_card_script a = Inr inner"
    by (cases "recipe_card_script a") auto
  let ?w = "w\<lparr>results_html := results_html w @ card_element inner\<rparr>"
  from Cons.prems a have "append_cards rs ?w = (None, w')" by simp
  from Cons.IH [OF this] show ?case
    by (auto elim: append_prefixD)
qed

lemma append_cards_mem:
  "append_cards rs w = (None, w') \<Longrightarrow> r \<in> set rs \<Longrightarrow>
   \<exists>inner. recipe_card_script r = Inr inner \<and> sublist inner (results_html w')"
proof (induction rs arbitrary: w)
  case Nil
  then show ?case by simp
next
  case (Cons a rs)
  then obtain inner where a: "recipe_card_script a = Inr inner"
    by (cases "recipe_card_script a") auto
  let ?w = "w\<lparr>results_html := results_html w @ card_element inner\<rparr>"
  from Cons.prems(1) a have rest: "append_cards rs ?w = (None, w')" by simp
  show ?case
  proof (cases "r = a")
    case True
    have "sublist inner (results_html w @ card_element inner)"
      unfolding card_element_def by (rule sublist_append_rightI | rule sublist_appL)+
    then have "sublist inner (results_html ?w)"
      by simp
    moreover have "sublist (results_html ?w) (results_html w')"
      using append_cards_prefix [OF rest] by (rule prefix_imp_sublist)
    ultimately show ?thesis
      using True a sublist_trans by blast
  next
    case False
    with Cons.prems(2) have "r \<in> set rs" by simp
    from Cons.IH [OF rest this] show ?thesis .
  qed
qed

lemma append_cards_total:
  "\<forall>r \<in> set rs. \<exists>c. recipe_card_script r = Inr c \<Longrightarrow> \<exists>w'. append_cards rs w = (None, w')"
  by (induction rs arbitrary: w) auto

lemma displayResults_script_nonempty_array:
  "rs \<noteq> [] \<Longrightarrow>
   displayResults_script (JArr rs) w = append_cards rs (w\<lparr>results_html := []\<rparr>)"
  by (simp add: displayResults_script_def get_prop_def nullish_def length_not_zero)

lemma print_150: "number_to_string (whole 150) = ''150''"
  by code_simp

lemma print_87: "number_to_string (whole 87) = ''87''"
  by code_simp

lemma print_500: "number_to_string (whole 500) = ''500''"
  by code_simp

lemma converts_text: "converts v \<Longrightarrow> to_string v = Inr (text_of v)"
  by (cases "to_string v") (simp_all add: converts_def text_of_def)

lemma map_throwing_items:
  assumes "list_all converts xs"
    and "\<And>i. f i = and_then (to_string i) (\<lambda>s. Inr (g s))"
  shows "map_throwing f xs = Inr (map (\<lambda>i. g (text_of i)) xs)"
proof (rule map_throwing_map)
  show "\<forall>r \<in> set xs. f r = Inr (g (text_of r))"
    using assms by (auto simp: list_all_iff converts_text)
qed

lemma optional_block_converts:
  "converts v \<Longrightarrow>
   optional_block v block = Inr (if truthy v then block (text_of v) else [])"
  by (simp add: optional_block_def converts_text)

lemma opt_map_join_shaped:
  assumes "nullish v \<or> items_convert v"
    and "\<And>i. f i = and_then (to_string i) (\<lambda>s. Inr (g s))"
  shows "\<exists>j. opt_map_join what v f = Inr j
           \<and> (nullish v \<longrightarrow> j = JUndefined)
           \<and> (\<forall>xs. v = JArr xs \<longrightarrow> j = JStr (concat (map (\<lambda>i. g (text_of i)) xs)))"
proof (cases "nullish v")
  case True
  then show ?thesis by (auto simp: opt_map_join_def nullish_def)
next
  case False
  with assms(1) obtain xs where v: "v = JArr xs" and "list_all converts xs"
    by (cases v) auto
  then show ?thesis
    using map_throwing_items [OF _ assms(2), of xs] by (simp add: opt_map_join_def nullish_def)
qed

lemma map_join_shaped:
  assumes "items_convert v"
    and "\<And>i. f i = and_then (to_string i) (\<lambda>s. Inr (g s))"
  shows "\<exists>xs. v = JArr xs \<and> map_join what v f = Inr (concat (map (\<lambda>i. g (text_of i)) xs))"
proof -
  from assms(1) obtain xs where v: "v = JArr xs" and "list_all converts xs"
    by (cases v) auto
  then show ?thesis
    using map_throwing_items [OF _ assms(2), of xs]
    by (simp add: map_join_def get_prop_def nullish_def)
qed

lemma list_hole:
  assumes "nullish v \<longrightarrow> j = JUndefined"
    and "\<forall>xs. v = JArr xs \<longrightarrow> j = JStr (concat (map (\<lambda>i. g (text_of i)) xs))"
    and "nullish v \<or> items_convert v"
    and "\<And>s. g s \<noteq> []"
  shows "\<exists>u. to_string (or_else j (JStr ph)) = Inr u
           \<and> (nullish v \<or> v = JArr [] \<longrightarrow> u = ph)
           \<and> (\<forall>xs. v = JArr xs \<and> xs \<noteq> [] \<longrightarrow> u = concat (map (\<lambda>i. g (text_of i)) xs))"
proof (cases "nullish v")
  case True
  then show ?thesis using assms(1) by (auto simp: or_else_def nullish_def)
next
  case False
  with assms(3) obtain xs where v: "v = JArr xs" by (cases v) auto
  with assms(2) have j: "j = JStr (concat (map (\<lambda>i. g (text_of i)) xs))" by simp
  show ?thesis
  proof (cases xs)
    case Nil
    then show ?thesis using v j by (simp add: or_else_def)
  next
    case (Cons a as)
    then show ?thesis using v j assms(4) by (simp add: or_else_def nullish_def)
  qed
qed

lemma recipe_card_shaped:
  assumes "recipe_shaped r"
  shows "\<exists>u m d l.
           recipe_card r =
             Inr (card_markup (text_of (read_prop r ''title''))
                    (text_of (read_prop r ''match'')) u m d l)
         \<and> (nullish (read_prop r ''used_ingredients'') \<or> read_prop r ''used_ingredients'' = JArr []
              \<longrightarrow> u = used_placeholder)
         \<and> (nullish (read_prop r ''missing_ingredients'')
              \<or> read_prop r ''missing_ingredients'' = JArr []
              \<longrightarrow> m = missing_placeholder)
         \<and> (\<forall>xs. read_prop r ''used_ingredients'' = JArr xs \<and> xs \<noteq> []
                \<longrightarrow> u = concat (map (\<lambda>i. has_li (text_of i)) xs))
         \<and> (\<forall>xs. read_prop r ''missing_ingredients'' = JArr xs \<and> xs \<noteq> []
                \<longrightarrow> m = concat (map (\<lambda>i. missing_li (text_of i)) xs))
         \<and> (\<not> truthy (read_prop r ''directions'') \<longrightarrow> d = [])
         \<and> (\<not> truthy (read_prop r ''link'') \<longrightarrow> l = [])
         \<and> (truthy (read_prop r ''directions'')
                \<longrightarrow> d = directions_block (text_of (read_prop r ''directions'')))
         \<and> (truthy (read_prop r ''link'')
                \<longrightarrow> l = link_block (text_of (read_prop r ''link'')))"
proof -
  let ?U = "read_prop r ''used_ingredients''" and ?M = "read_prop r ''missing_ingredients''"
  let ?D = "read_prop r ''directions''" and ?L = "read_prop r ''link''"
  from assms have nn: "\<not> nullish r"
    and ct: "converts (read_prop r ''title'')" and cm: "converts (read_prop r ''match'')"
    and su: "nullish ?U \<or> items_convert ?U" and sm: "nullish ?M \<or> items_convert ?M"
    and cd: "converts ?D" and cl: "converts ?L"
    by (simp_all add: recipe_shaped_def)
  from opt_map_join_shaped [OF su, of has_item has_li "''recipe.used_ingredients''"]
  obtain ju
    where ju: "opt_map_join ''recipe.used_ingredients'' ?U has_item = Inr ju"
        "nullish ?U \<longrightarrow> ju = JUndefined"
        "\<forall>xs. ?U = JArr xs \<longrightarrow> ju = JStr (concat (map (\<lambda>i. has_li (text_of i)) xs))"
    by (auto simp: has_item_def)
  from opt_map_join_shaped [OF sm, of missing_item missing_li "''recipe.missing_ingredients''"]
  obtain jm
    where jm: "opt_map_join ''recipe.missing_ingredients'' ?M missing_item = Inr jm"
        "nullish ?M \<longrightarrow> jm = JUndefined"
        "\<forall>xs. ?M = JArr xs \<longrightarrow> jm = JStr (concat (map (\<lambda>i. missing_li (text_of i)) xs))"
    by (auto simp: missing_item_def)
  from list_hole [OF ju(2,3) su, of used_placeholder]
  obtain u where u: "to_string (or_else ju (JStr used_placeholder)) = Inr u"
      "nullish ?U \<or> ?U = JArr [] \<longrightarrow> u = used_placeholder"
      "\<forall>xs. ?U = JArr xs \<and> xs \<noteq> [] \<longrightarrow> u = concat (map (\<lambda>i. has_li (text_of i)) xs)"
    by auto
  from list_hole [OF jm(2,3) sm, of missing_placeholder]
  obtain m where m: "to_string (or_else jm (JStr missing_placeholder)) = Inr m"
      "nullish ?M \<or> ?M = JArr [] \<longrightarrow> m = missing_placeholder"
      "\<forall>xs. ?M = JArr xs \<and> xs \<noteq> [] \<longrightarrow> m = concat (map (\<lambda>i. missing_li (text_of i)) xs)"
    by auto
  let ?d = "if truthy ?D then directions_block (text_of ?D) else []"
  let ?l = "if truthy ?L then link_block (text_of ?L) else []"
  have card: "recipe_card r =
             Inr (card_markup (text_of (read_prop r ''title''))
                    (text_of (read_prop r ''match'')) u m ?d ?l)"
    using nn ju(1) jm(1) u(1) m(1)
    by (simp add: recipe_card_def get_prop_def converts_text [OF ct] converts_text [OF cm]
          optional_block_converts [OF cd] optional_block_converts [OF cl])
  have d: "\<not> truthy ?D \<longrightarrow> ?d = []" "truthy ?D \<longrightarrow> ?d = directions_block (text_of ?D)"
    and l: "\<not> truthy ?L \<longrightarrow> ?l = []" "truthy ?L \<longrightarrow> ?l = link_block (text_of ?L)"
    by simp_all
  from card u(2,3) m(2,3) d l show ?thesis
    by blast
qed

lemma recipe_card_script_shaped:
  assumes "recipe_shaped_script r"
  shows "\<exists>u m d l.
           recipe_card_script r =
             Inr (card_markup_script (text_of (read_prop r ''title''))
                    (text_of (read_prop r ''match'')) u m d l)
         \<and> (\<forall>xs. read_prop r ''used'' = JArr xs
                \<longrightarrow> u = concat (map (\<lambda>i. has_li_script (text_of i)) xs))
         \<and> (\<forall>xs. read_prop r ''missing'' = JArr xs
                \<longrightarrow> m = concat (map (\<lambda>i. missing_li_script (text_of i)) xs))
         \<and> (\<not> truthy (read_prop r ''directions'') \<longrightarrow> d = [])
         \<and> (\<not> truthy (read_prop r ''link'') \<longrightarrow> l = [])
         \<and> (truthy (read_prop r ''directions'')
                \<longrightarrow> d = directions_block_script (text_of (read_prop r ''directions'')))
         \<and> (truthy (read_prop r ''link'')
                \<longrightarrow> l = link_block (text_of (read_prop r ''link'')))"
proof -
  let ?U = "read_prop r ''used''" and ?M = "read_prop r ''missing''"
  let ?D = "read_prop r ''directions''" and ?L = "read_prop r ''link''"
  from assms have nn: "\<not> nullish r"
    and ct: "converts (read_prop r ''title'')" and cm: "converts (read_prop r ''match'')"
    and su: "items_convert ?U" and sm: "items_convert ?M"
    and cd: "converts ?D" and cl: "converts ?L"
    by (simp_all add: recipe_shaped_script_def)
  from map_join_shaped [OF su, of has_item_script has_li_script "''recipe.used''"]
  obtain xs where xs: "?U = JArr xs"
      "map_join ''recipe.used'' ?U has_item_script
         = Inr (concat (map (\<lambda>i. has_li_script (text_of i)) xs))"
    by (auto simp: has_item_script_def)
  from map_join_shaped [OF sm, of missing_item_script missing_li_script "''recipe.missing''"]
  obtain ys where ys: "?M = JArr ys"
      "map_join ''recipe.missing'' ?M missing_item_script
         = Inr (concat (map (\<lambda>i. missing_li_script (text_of i)) ys))"
    by (auto simp: missing_item_script_def)
  let ?u = "concat (map (\<lambda>i. has_li_script (text_of i)) xs)"
  let ?m = "concat (map (\<lambda>i. missing_li_script (text_of i)) ys)"
  let ?d = "if truthy ?D then directions_block_script (text_of ?D) else []"
  let ?l = "if truthy ?L then link_block (text_of ?L) else []"
  have card: "recipe_card_script r =
             Inr (card_markup_script (text_of (read_prop r ''title''))
                    (text_of (read_prop r ''match'')) ?u ?m ?d ?l)"
    using nn xs(2) ys(2)
    by (simp add: recipe_card_script_def get_prop_def converts_text [OF ct]
          converts_text [OF cm] optional_block_converts [OF cd]
          optional_block_converts [OF cl])
  have u: "\<forall>zs. ?U = JArr zs \<longrightarrow> ?u = concat (map (\<lambda>i. has_li_script (text_of i)) zs)"
    and m: "\<forall>zs. ?M = JArr zs \<longrightarrow> ?m = concat (map (\<lambda>i. missing_li_script (text_of i)) zs)"
    using xs(1) ys(1) by simp_all
  have d: "\<not> truthy ?D \<longrightarrow> ?d = []" "truthy ?D \<longrightarrow> ?d = directions_block_script (text_of ?D)"
    and l: "\<not> truthy ?L \<longrightarrow> ?l = []" "truthy ?L \<longrightarrow> ?l = link_block (text_of ?L)"
    by simp_all
  from card u m d l show ?thesis
    by blast
qed

section \<open>Facts about whitespace\<close>

lemma white_space_prefix_free_exec:
  "list_all (\<lambda>p. list_all (\<lambda>q. prefix p q \<longrightarrow> p = q) white_space) white_space"
  by code_simp

lemma white_space_prefix_free:
  "p \<in> set white_space \<Longrightarrow> q \<in> set white_space \<Longrightarrow> prefix p q \<Longrightarrow> p = q"
  using white_space_prefix_free_exec by (auto simp: list_all_iff)

lemma white_space_nonempty: "p \<in> set white_space \<Longrightarrow> p \<noteq> []"
  by (auto simp: white_space_def)

lemma strip_Nil: "strip ps [] = []"
proof -
  have "find (\<lambda>p. p \<noteq> [] \<and> prefix p []) ps = None"
    by (simp add: find_None_iff)
  then show ?thesis by (simp add: strip.simps)
qed

lemma strip_white_space_step:
  assumes "p \<in> set white_space"
  shows "strip white_space (p @ s) = strip white_space s"
proof -
  let ?P = "\<lambda>q. q \<noteq> [] \<and> prefix q (p @ s)"
  have "?P p" using assms by (simp add: white_space_nonempty)
  then have "find ?P white_space \<noteq> None"
    using assms by (auto simp: find_None_iff)
  then obtain q where q: "find ?P white_space = Some q" by auto
  then have "q \<in> set white_space" and "prefix q (p @ s)"
    by (auto simp: find_Some_iff in_set_conv_nth)
  then have "prefix q p \<or> prefix p q"
    using prefix_same_cases [of q "p @ s" p] by auto
  then have "q = p"
    using assms \<open>q \<in> set white_space\<close> white_space_prefix_free by blast
  with q show ?thesis
    by (subst strip.simps) simp
qed

lemma strip_ws_only: "ws_only s \<Longrightarrow> strip white_space s = []"
  by (induction rule: ws_only.induct) (simp_all add: strip_Nil strip_white_space_step)

lemma trim_ws_only: "ws_only s \<Longrightarrow> trim s = []"
  by (simp add: trim_def strip_ws_only strip_Nil)

section \<open>Facts about the client\<close>

lemma init_when_initialized: "initialized w \<Longrightarrow> init srv w = (Inr True, w)"
  by (simp add: init_def)

lemma init_apiUrl: "apiUrl (snd (init srv w)) = apiUrl w"
  by (simp add: init_def Let_def logged_def split: fetch_result.split sum.split)

lemma init_or_skip: "(if \<not> initialized w then init srv w else (Inr True, w)) = init srv w"
  by (simp add: init_when_initialized)

lemma init_frame_results:
  "init srv (w\<lparr>results_html := h\<rparr>) = (fst (init srv w), (snd (init srv w))\<lparr>results_html := h\<rparr>)"
  by (simp add: init_def Let_def logged_def health_request_def download_request_def
           split: fetch_result.split sum.split)

lemma trim_sample: "trim (input_value ready_page) = sample_query"
  unfolding ready_page_def sample_query_def by code_simp

lemma render_no_recipes:
  "render JUndefined = Inr no_results" "render JNull = Inr no_results"
  "render (JArr []) = Inr no_results"
  by (simp_all add: render_def whole_def)

section \<open>The match percentage\<close>

text \<open>
  C1, as the spec has it: the percentage a card shows is clamped to the range 0 to 100.
  The code does not clamp. A recipe whose match is 150 is rendered with 150, and not
  with 100, in both variants.
\<close>

theorem match_clamped_counterexample:
  "render (JArr [over_recipe]) =
     Inr (card_markup ''Bolo'' ''150'' (has_li ''egg'') (missing_li ''sugar'') [] [])
   \<and> render (JArr [over_recipe]) \<noteq>
     Inr (card_markup ''Bolo'' ''100'' (has_li ''egg'') (missing_li ''sugar'') [] [])
   \<and> recipe_card_script over_recipe_script =
     Inr (card_markup_script ''Bolo'' ''150'' (has_li_script ''egg'')
            (missing_li_script ''sugar'') [] [])
   \<and> recipe_card_script over_recipe_script \<noteq>
     Inr (card_markup_script ''Bolo'' ''100'' (has_li_script ''egg'')
            (missing_li_script ''sugar'') [] [])"
proof -
  have a: "render (JArr [over_recipe]) =
     Inr (card_markup ''Bolo'' ''150'' (has_li ''egg'') (missing_li ''sugar'') [] [])"
    by (simp add: render_def recipe_card_def over_recipe_def get_prop_def nullish_def
          opt_map_join_def or_else_def optional_block_def print_150 has_item_def
          missing_item_def whole_def [of 1])
  have b: "recipe_card_script over_recipe_script =
     Inr (card_markup_script ''Bolo'' ''150'' (has_li_script ''egg'')
            (missing_li_script ''sugar'') [] [])"
    by (simp add: recipe_card_script_def over_recipe_script_def get_prop_def nullish_def
          map_join_def optional_block_def print_150 has_item_script_def
          missing_item_script_def)
  have c: "card_markup ''Bolo'' ''150'' u m [] [] \<noteq> card_markup ''Bolo'' ''100'' u m [] []"
    for u m
    by (simp add: card_markup_def match_span_def)
  have d: "card_markup_script ''Bolo'' ''150'' u m [] [] \<noteq>
           card_markup_script ''Bolo'' ''100'' u m [] []" for u m
    by (simp add: card_markup_script_def match_span_script_def)
  show ?thesis
    using a b c d by simp
qed

text \<open>
  C1, amended: every card that is rendered shows the match number as JavaScript prints
  the value the server sent, whatever its range. In the class-based variant the markup
  holds the span with that text; in the procedural variant the results area does.
\<close>

theorem match_shown_unclamped:
  assumes "r \<in> set rs" and "read_prop r ''match'' = JNum n"
  shows "(render (JArr rs) = Inr html \<longrightarrow> sublist (match_span (number_to_string n)) html)
       \<and> (displayResults_script (JArr rs) w = (None, w') \<longrightarrow>
            sublist (match_span_script (number_to_string n)) (results_html w'))"
proof (intro conjI impI)
  assume "render (JArr rs) = Inr html"
  from render_card_in_markup [OF this assms(1)] obtain c
    where "recipe_card r = Inr c" "sublist c html" by blast
  then show "sublist (match_span (number_to_string n)) html"
    using recipe_card_shows_match [of r c] assms(2) sublist_trans by fastforce
next
  assume d: "displayResults_script (JArr rs) w = (None, w')"
  from assms(1) have "rs \<noteq> []" by auto
  with d have "append_cards rs (w\<lparr>results_html := []\<rparr>) = (None, w')"
    by (simp add: displayResults_script_nonempty_array)
  from append_cards_mem [OF this assms(1)] obtain inner
    where "recipe_card_script r = Inr inner" "sublist inner (results_html w')" by blast
  then show "sublist (match_span_script (number_to_string n)) (results_html w')"
    using recipe_card_script_shows_match [of r inner] assms(2) sublist_trans by fastforce
qed

theorem match_shown_unclamped_witness:
  "over_recipe \<in> set [over_recipe]
   \<and> read_prop over_recipe ''match'' = JNum (whole 150)
   \<and> render (JArr [over_recipe]) =
       Inr (card_markup ''Bolo'' ''150'' (has_li ''egg'') (missing_li ''sugar'') [] [])
   \<and> sublist (match_span ''150'')
       (card_markup ''Bolo'' ''150'' (has_li ''egg'') (missing_li ''sugar'') [] [])"
proof -
  let ?html = "card_markup ''Bolo'' ''150'' (has_li ''egg'') (missing_li ''sugar'') [] []"
  have a: "over_recipe \<in> set [over_recipe]" by simp
  have b: "read_prop over_recipe ''match'' = JNum (whole 150)"
    by (simp add: over_recipe_def)
  have c: "render (JArr [over_recipe]) = Inr ?html"
    by (simp add: render_def recipe_card_def over_recipe_def get_prop_def nullish_def
          opt_map_join_def or_else_def optional_block_def print_150 has_item_def
          missing_item_def whole_def [of 1])
  show ?thesis
    using match_shown_unclamped [OF a b, of ?html] a b c print_150 by simp
qed

section \<open>Absent optional fields\<close>

text \<open>
  C2, as the spec has it: for a recipe with an optional field absent, rendering succeeds
  and the block of each absent field is omitted. For a recipe with a title and a match
  only, the class-based card still holds both ingredient sections, each with its
  placeholder item, and the procedural variant throws on the absent list.
\<close>

theorem absent_lists_counterexample:
  "render (JArr [sparse_recipe]) =
     Inr (card_markup ''Bolo'' ''87'' used_placeholder missing_placeholder [] [])
   \<and> sublist (used_section used_placeholder)
       (card_markup ''Bolo'' ''87'' used_placeholder missing_placeholder [] [])
   \<and> sublist (missing_section missing_placeholder)
       (card_markup ''Bolo'' ''87'' used_placeholder missing_placeholder [] [])
   \<and> fst (displayResults_script (JArr [sparse_recipe]) (new_page ''example.org'')) =
       Some (TypeError (''Cannot read properties of undefined (reading '' @ apos @ ''map'' @
                        apos @ '')''))"
proof -
  have a: "render (JArr [sparse_recipe]) =
     Inr (card_markup ''Bolo'' ''87'' used_placeholder missing_placeholder [] [])"
    by (simp add: render_def recipe_card_def sparse_recipe_def get_prop_def nullish_def
          opt_map_join_def or_else_def optional_block_def print_87 whole_def [of 1])
  have b: "sublist (used_section u) (card_markup t m u mi d l)" for t m u mi d l
    unfolding card_markup_def by (rule sublist_append_rightI | rule sublist_appL)+
  have c: "sublist (missing_section mi) (card_markup t m u mi d l)" for t m u mi d l
    unfolding card_markup_def by (rule sublist_append_rightI | rule sublist_appL)+
  have d: "fst (displayResults_script (JArr [sparse_recipe]) (new_page ''example.org'')) =
       Some (TypeError (''Cannot read properties of undefined (reading '' @ apos @ ''map'' @
                        apos @ '')''))"
    by (simp add: displayResults_script_def recipe_card_script_def map_join_def
          sparse_recipe_def get_prop_def nullish_def print_87 whole_def [of 1])
  show ?thesis
    using a b c d by simp
qed

text \<open>
  C2, amended, for recipes whose title, match, directions, link and list items convert
  to strings. In the class-based variant, when the two ingredient lists of every recipe
  are absent or arrays, rendering succeeds and the markup holds the card of each recipe,
  with its title and match; an absent or empty ingredient list is not omitted, its
  section holds the placeholder item, and a list with items holds one item for each. In
  the procedural variant, when the two lists of every recipe are arrays, rendering
  succeeds and the results area holds the card of each recipe, its lists item by item.
  In both, a directions or link that is falsy (absent, null, the empty string) leaves
  nothing, and one that is truthy is rendered in its block.
\<close>

theorem absent_fields_rendered:
  assumes "r \<in> set rs"
  shows "((\<forall>x \<in> set rs. recipe_shaped x) \<longrightarrow>
          (\<exists>html u m d l.
             render (JArr rs) = Inr html
           \<and> sublist (card_markup (text_of (read_prop r ''title''))
                        (text_of (read_prop r ''match'')) u m d l) html
           \<and> (nullish (read_prop r ''used_ingredients'')
                \<or> read_prop r ''used_ingredients'' = JArr [] \<longrightarrow> u = used_placeholder)
           \<and> (nullish (read_prop r ''missing_ingredients'')
                \<or> read_prop r ''missing_ingredients'' = JArr [] \<longrightarrow> m = missing_placeholder)
           \<and> (\<forall>xs. read_prop r ''used_ingredients'' = JArr xs \<and> xs \<noteq> []
                  \<longrightarrow> u = concat (map (\<lambda>i. has_li (text_of i)) xs))
           \<and> (\<forall>xs. read_prop r ''missing_ingredients'' = JArr xs \<and> xs \<noteq> []
                  \<longrightarrow> m = concat (map (\<lambda>i. missing_li (text_of i)) xs))
           \<and> (\<not> truthy (read_prop r ''directions'') \<longrightarrow> d = [])
           \<and> (\<not> truthy (read_prop r ''link'') \<longrightarrow> l = [])
           \<and> (truthy (read_prop r ''directions'')
                  \<longrightarrow> d = directions_block (text_of (read_prop r ''directions'')))
           \<and> (truthy (read_prop r ''link'')
                  \<longrightarrow> l = link_block (text_of (read_prop r ''link'')))))
       \<and> ((\<forall>x \<in> set rs. recipe_shaped_script x) \<longrightarrow>
          (\<exists>w' u m d l.
             displayResults_script (JArr rs) w = (None, w')
           \<and> sublist (card_markup_script (text_of (read_prop r ''title''))
                        (text_of (read_prop r ''match'')) u m d l) (results_html w')
           \<and> (\<forall>xs. read_prop r ''used'' = JArr xs
                  \<longrightarrow> u = concat (map (\<lambda>i. has_li_script (text_of i)) xs))
           \<and> (\<forall>xs. read_prop r ''missing'' = JArr xs
                  \<longrightarrow> m = concat (map (\<lambda>i. missing_li_script (text_of i)) xs))
           \<and> (\<not> truthy (read_prop r ''directions'') \<longrightarrow> d = [])
           \<and> (\<not> truthy (read_prop r ''link'') \<longrightarrow> l = [])
           \<and> (truthy (read_prop r ''directions'')
                  \<longrightarrow> d = directions_block_script (text_of (read_prop r ''directions'')))
           \<and> (truthy (read_prop r ''link'')
                  \<longrightarrow> l = link_block (text_of (read_prop r ''link'')))))"
proof (intro conjI impI)
  assume shaped: "\<forall>x \<in> set rs. recipe_shaped x"
  then have "\<forall>x \<in> set rs. \<exists>c. recipe_card x = Inr c"
    using recipe_card_shaped by blast
  then have "\<forall>x \<in> set rs. recipe_card x = Inr (projr (recipe_card x))"
    by auto
  from map_throwing_map [OF this] obtain cs where cs: "map_throwing recipe_card rs = Inr cs"
    by blast
  from assms have "rs \<noteq> []" by auto
  then have html: "render (JArr rs) = Inr (concat cs)"
    using cs by (simp add: render_nonempty_array)
  from render_card_in_markup [OF html assms] obtain c
    where c: "recipe_card r = Inr c" "sublist c (concat cs)" by blast
  from shaped assms have "recipe_shaped r" by blast
  from recipe_card_shaped [OF this] c html
  show "\<exists>html u m d l.
             render (JArr rs) = Inr html
           \<and> sublist (card_markup (text_of (read_prop r ''title''))
                        (text_of (read_prop r ''match'')) u m d l) html
           \<and> (nullish (read_prop r ''used_ingredients'')
                \<or> read_prop r ''used_ingredients'' = JArr [] \<longrightarrow> u = used_placeholder)
           \<and> (nullish (read_prop r ''missing_ingredients'')
                \<or> read_prop r ''missing_ingredients'' = JArr [] \<longrightarrow> m = missing_placeholder)
           \<and> (\<forall>xs. read_prop r ''used_ingredients'' = JArr xs \<and> xs \<noteq> []
                  \<longrightarrow> u = concat (map (\<lambda>i. has_li (text_of i)) xs))
           \<and> (\<forall>xs. read_prop r ''missing_ingredients'' = JArr xs \<and> xs \<noteq> []
                  \<longrightarrow> m = concat (map (\<lambda>i. missing_li (text_of i)) xs))
           \<and> (\<not> truthy (read_prop r ''directions'') \<longrightarrow> d = [])
           \<and> (\<not> truthy (read_prop r ''link'') \<longrightarrow> l = [])
           \<and> (truthy (read_prop r ''directions'')
                  \<longrightarrow> d = directions_block (text_of (read_prop r ''directions'')))
           \<and> (truthy (read_prop r ''link'')
                  \<longrightarrow> l = link_block (text_of (read_prop r ''link'')))"
    by (elim exE conjE) (intro exI conjI; (assumption | simp))
next
  assume shaped: "\<forall>x \<in> set rs. recipe_shaped_script x"
  then have "\<forall>x \<in> set rs. \<exists>c. recipe_card_script x = Inr c"
    using recipe_card_script_shaped by blast
  from append_cards_total [OF this] obtain w'
    where w': "append_cards rs (w\<lparr>results_html := []\<rparr>) = (None, w')"
    by blast
  from assms have "rs \<noteq> []" by auto
  then have shown: "displayResults_script (JArr rs) w = (None, w')"
    using w' by (simp add: displayResults_script_nonempty_array)
  from append_cards_mem [OF w' assms] obtain inner
    where inner: "recipe_card_script r = Inr inner" "sublist inner (results_html w')"
    by blast
  from shaped assms have "recipe_shaped_script r" by blast
  from recipe_card_script_shaped [OF this] inner shown
  show "\<exists>w' u m d l.
             displayResults_script (JArr rs) w = (None, w')
           \<and> sublist (card_markup_script (text_of (read_prop r ''title''))
                        (text_of (read_prop r ''match'')) u m d l) (results_html w')
           \<and> (\<forall>xs. read_prop r ''used'' = JArr xs
                  \<longrightarrow> u = concat (map (\<lambda>i. has_li_script (text_of i)) xs))
           \<and> (\<forall>xs. read_prop r ''missing'' = JArr xs
                  \<longrightarrow> m = concat (map (\<lambda>i. missing_li_script (text_of i)) xs))
           \<and> (\<not> truthy (read_prop r ''directions'') \<longrightarrow> d = [])
           \<and> (\<not> truthy (read_prop r ''link'') \<longrightarrow> l = [])
           \<and> (truthy (read_prop r ''directions'')
                  \<longrightarrow> d = directions_block_script (text_of (read_prop r ''directions'')))
           \<and> (truthy (read_prop r ''link'')
                  \<longrightarrow> l = link_block (text_of (read_prop r ''link'')))"
    by (elim exE conjE) (intro exI conjI; (assumption | simp))
qed

theorem absent_fields_rendered_witness:
  "recipe_shaped sparse_recipe
   \<and> (\<exists>html. render (JArr [sparse_recipe]) = Inr html
        \<and> sublist (card_markup ''Bolo'' ''87'' used_placeholder missing_placeholder [] []) html)
   \<and> recipe_shaped_script listed_recipe_script
   \<and> (\<exists>w'. displayResults_script (JArr [listed_recipe_script]) (new_page ''example.org'')
               = (None, w')
        \<and> sublist (card_markup_script ''Bolo'' ''87''
                     (has_li_script ''egg'' @ has_li_script ''flour'')
                     (missing_li_script ''sugar'') [] []) (results_html w'))"
proof -
  have a: "\<forall>x \<in> set [sparse_recipe]. recipe_shaped x"
    by (simp add: recipe_shaped_def sparse_recipe_def nullish_def converts_def)
  have b: "sparse_recipe \<in> set [sparse_recipe]" by simp
  have c: "nullish (read_prop sparse_recipe ''used_ingredients'')"
    "nullish (read_prop sparse_recipe ''missing_ingredients'')"
    "\<not> truthy (read_prop sparse_recipe ''directions'')"
    "\<not> truthy (read_prop sparse_recipe ''link'')"
    "text_of (read_prop sparse_recipe ''title'') = ''Bolo''"
    "text_of (read_prop sparse_recipe ''match'') = ''87''"
    by (simp_all add: sparse_recipe_def nullish_def text_of_def print_87)
  have a': "\<forall>x \<in> set [listed_recipe_script]. recipe_shaped_script x"
    by (simp add: recipe_shaped_script_def listed_recipe_script_def nullish_def converts_def)
  have b': "listed_recipe_script \<in> set [listed_recipe_script]" by simp
  have c': "read_prop listed_recipe_script ''used'' = JArr [JStr ''egg'', JStr ''flour'']"
    "read_prop listed_recipe_script ''missing'' = JArr [JStr ''sugar'']"
    "\<not> truthy (read_prop listed_recipe_script ''directions'')"
    "\<not> truthy (read_prop listed_recipe_script ''link'')"
    "text_of (read_prop listed_recipe_script ''title'') = ''Bolo''"
    "text_of (read_prop listed_recipe_script ''match'') = ''87''"
    by (simp_all add: listed_recipe_script_def text_of_def print_87)
  have t: "text_of (JStr s) = s" for s by (simp add: text_of_def)
  from absent_fields_rendered [OF b, of "new_page ''example.org''"] a
  obtain html u m d l
    where "render (JArr [sparse_recipe]) = Inr html"
      and "sublist (card_markup (text_of (read_prop sparse_recipe ''title''))
                      (text_of (read_prop sparse_recipe ''match'')) u m d l) html"
      and "u = used_placeholder" and "m = missing_placeholder" and "d = []" and "l = []"
    using c by blast
  then have first: "\<exists>html. render (JArr [sparse_recipe]) = Inr html
        \<and> sublist (card_markup ''Bolo'' ''87'' used_placeholder missing_placeholder [] []) html"
    using c by auto
  from absent_fields_rendered [OF b', of "new_page ''example.org''"] a'
  obtain w' u m d l
    where "displayResults_script (JArr [listed_recipe_script]) (new_page ''example.org'')
             = (None, w')"
      and "sublist (card_markup_script (text_of (read_prop listed_recipe_script ''title''))
                      (text_of (read_prop listed_recipe_script ''match'')) u m d l)
             (results_html w')"
      and "u = concat (map (\<lambda>i. has_li_script (text_of i)) [JStr ''egg'', JStr ''flour''])"
      and "m = concat (map (\<lambda>i. missing_li_script (text_of i)) [JStr ''sugar''])"
      and "d = []" and "l = []"
    using c' by blast
  then have second: "\<exists>w'. displayResults_script (JArr [listed_recipe_script])
                             (new_page ''example.org'') = (None, w')
        \<and> sublist (card_markup_script ''Bolo'' ''87''
                     (has_li_script ''egg'' @ has_li_script ''flour'')
                     (missing_li_script ''sugar'') [] []) (results_html w')"
    using c' t by auto
  from a a' first second show ?thesis by simp
qed

section \<open>Failure of a suggestion request\<close>

text \<open>
  C3, as the spec has it: on a response of non-success status the suggestion fails with
  an error whose message carries the status code and the status text. In the procedural
  variant, on a response of status 500, \<^verbatim>\<open>suggestRecipes\<close> makes the request, does not
  fail, and shows a fixed message that holds neither the code nor the status text.
\<close>

theorem suggestRecipes_status_counterexample:
  \<open>\<not> ok (server_error JNull)
   \<and> calls (suggestRecipes (always (server_error JNull)) ready_page)
       = [suggestRecipes_request (input_value ready_page)]
   \<and> results_html (suggestRecipes (always (server_error JNull)) ready_page)
       = ''<p class="error">Erro ao buscar receitas: Erro ao buscar receitas</p>''
   \<and> \<not> sublist ''500'' ''Erro ao buscar receitas''
   \<and> \<not> sublist ''Internal Server Error'' ''Erro ao buscar receitas''\<close>
proof -
  have a: "\<not> ok (server_error JNull)"
    by (simp add: ok_def server_error_def json_response_def)
  have t: "truthy (JStr (trim (input_value ready_page)))"
    by (simp add: trim_sample sample_query_def)
  have b: "calls (suggestRecipes (always (server_error JNull)) ready_page)
             = [suggestRecipes_request (input_value ready_page)]"
    using a t by (simp add: suggestRecipes_def Let_def always_def logged_def)
       (simp add: ready_page_def new_page_def)
  have c: \<open>results_html (suggestRecipes (always (server_error JNull)) ready_page)
       = ''<p class="error">Erro ao buscar receitas: Erro ao buscar receitas</p>''\<close>
    using a t by (simp add: suggestRecipes_def Let_def always_def error_markup_def)
  have d: "\<not> sublist ''500'' ''Erro ao buscar receitas''"
    "\<not> sublist ''Internal Server Error'' ''Erro ao buscar receitas''"
    by code_simp+
  show ?thesis using a b c d by simp
qed

text \<open>
  C3, amended: in the class-based variant, when the readiness step has passed and the
  response to the suggestion request has a status outside 200 to 299, \<^verbatim>\<open>suggest\<close> fails,
  and the message of the error is \<^verbatim>\<open>HTTP\<close>, the status code, a colon, and the status
  text. In the procedural variant, on such a response to a query that is not blank,
  \<^verbatim>\<open>suggestRecipes\<close> throws the fixed message \<^verbatim>\<open>Erro ao buscar receitas\<close>, catches it
  itself, and ends with that message in the results area.
\<close>

theorem suggest_non_success_status:
  "(fst (init srv w) = Inr True \<and> srv (suggest_request w q) = Resolved r \<and> \<not> ok r \<longrightarrow>
      fst (suggest srv q w) =
        Inl (Error (''HTTP '' @ number_to_string (whole (int (status r))) @ '': '' @
                    statusText r)))
   \<and> (truthy (JStr (trim (input_value w)))
       \<and> srv (suggestRecipes_request (input_value w)) = Resolved r \<and> \<not> ok r \<longrightarrow>
      calls (suggestRecipes srv w) = calls w @ [suggestRecipes_request (input_value w)]
      \<and> results_html (suggestRecipes srv w) =
          error_markup ''Erro ao buscar receitas: '' (Error ''Erro ao buscar receitas''))"
proof (intro conjI impI)
  assume h: "fst (init srv w) = Inr True \<and> srv (suggest_request w q) = Resolved r \<and> \<not> ok r"
  then obtain w1 where i: "init srv w = (Inr True, w1)"
    by (cases "init srv w") simp
  have "apiUrl w1 = apiUrl w"
    using init_apiUrl [of srv w] i by simp
  then have "suggest_request w1 q = suggest_request w q"
    by (simp add: suggest_request_def)
  then show "fst (suggest srv q w) =
        Inl (Error (''HTTP '' @ number_to_string (whole (int (status r))) @ '': '' @
                    statusText r))"
    using h i by (simp add: suggest_def init_or_skip Let_def)
next
  assume h: "truthy (JStr (trim (input_value w)))
       \<and> srv (suggestRecipes_request (input_value w)) = Resolved r \<and> \<not> ok r"
  then show "calls (suggestRecipes srv w) = calls w @ [suggestRecipes_request (input_value w)]"
    by (simp add: suggestRecipes_def Let_def logged_def)
next
  assume h: "truthy (JStr (trim (input_value w)))
       \<and> srv (suggestRecipes_request (input_value w)) = Resolved r \<and> \<not> ok r"
  then show "results_html (suggestRecipes srv w) =
          error_markup ''Erro ao buscar receitas: '' (Error ''Erro ao buscar receitas'')"
    by (simp add: suggestRecipes_def Let_def)
qed

theorem suggest_non_success_status_witness:
  "fst (init (example_server health_ready download_done (server_error JNull))
          (new_page ''example.org'')) = Inr True
   \<and> \<not> ok (server_error JNull)
   \<and> fst (suggest (example_server health_ready download_done (server_error JNull))
            (JStr ''egg'') (new_page ''example.org''))
       = Inl (Error ''HTTP 500: Internal Server Error'')
   \<and> truthy (JStr (trim (input_value ready_page)))
   \<and> results_html (suggestRecipes (always (server_error JNull)) ready_page)
       = error_markup ''Erro ao buscar receitas: '' (Error ''Erro ao buscar receitas'')"
proof -
  let ?srv = "example_server health_ready download_done (server_error JNull)"
  let ?w = "new_page ''example.org''"
  have i: "fst (init ?srv ?w) = Inr True"
    by (simp add: init_def Let_def logged_def health_request_def new_page_def
          example_server_def health_ready_def json_response_def get_prop_def nullish_def)
  have r: "?srv (suggest_request ?w (JStr ''egg'')) = Resolved (server_error JNull)"
    by (simp add: suggest_request_def new_page_def example_server_def)
  have n: "\<not> ok (server_error JNull)"
    by (simp add: ok_def server_error_def json_response_def)
  have t: "truthy (JStr (trim (input_value ready_page)))"
    by (simp add: trim_sample sample_query_def)
  have r': "always (server_error JNull) (suggestRecipes_request (input_value ready_page))
              = Resolved (server_error JNull)"
    by (simp add: always_def)
  show ?thesis
    using suggest_non_success_status
            [of ?srv ?w "JStr ''egg''" "server_error JNull"]
          suggest_non_success_status
            [of "always (server_error JNull)" ready_page _ "server_error JNull"]
          i r n t r'
    by (simp add: server_error_def json_response_def print_500)
qed

section \<open>Readiness\<close>

text \<open>
  C5: on a client that is not ready yet, a health response whose body has status
  \<^verbatim>\<open>"ok"\<close> and \<^verbatim>\<open>models_loaded\<close> true makes \<^verbatim>\<open>init\<close> succeed with the flag set after
  exactly one request, the health check; the provisioning request is not made.
\<close>

theorem init_ready_health:
  assumes "\<not> initialized w"
    and "srv (health_request w) = Resolved r"
    and "json r = Inr data"
    and "get_prop data ''status'' = Inr (JStr ''ok'')"
    and "read_prop data ''models_loaded'' = JBool True"
  shows "init srv w =
           (Inr True, w\<lparr>calls := calls w @ [health_request w], initialized := True\<rparr>)
         \<and> download_request w \<notin> set [health_request w]"
  using assms by (simp add: init_def Let_def logged_def health_request_def download_request_def)

theorem init_ready_health_witness:
  "init (example_server health_ready (server_error JNull) (server_error JNull))
     (new_page ''example.org'')
   = (Inr True,
      (new_page ''example.org'')
        \<lparr>calls := [\<lparr>url = ''/api/health'', http_method = ''GET'', headers = [], body = None\<rparr>],
         initialized := True\<rparr>)"
proof -
  let ?srv = "example_server health_ready (server_error JNull) (server_error JNull)"
  let ?w = "new_page ''example.org''"
  have a: "\<not> initialized ?w" by (simp add: new_page_def)
  have b: "?srv (health_request ?w) = Resolved health_ready"
    by (simp add: health_request_def new_page_def example_server_def)
  have c: "json health_ready =
             Inr (JObj [(''status'', JStr ''ok''), (''models_loaded'', JBool True)])"
    by (simp add: health_ready_def json_response_def)
  have d: "get_prop (JObj [(''status'', JStr ''ok''), (''models_loaded'', JBool True)]) ''status''
             = Inr (JStr ''ok'')"
    by (simp add: get_prop_def nullish_def)
  have e: "read_prop (JObj [(''status'', JStr ''ok''), (''models_loaded'', JBool True)])
             ''models_loaded'' = JBool True"
    by simp
  show ?thesis
    using init_ready_health [where srv = "?srv" and w = "?w", OF a b c d e]
    by (simp add: health_request_def new_page_def)
qed

text \<open>
  C9: on a client that is ready, \<^verbatim>\<open>init\<close> returns true at once: the state is the one it
  was given, and no request has been added to the trace.
\<close>

theorem init_idempotent_when_ready:
  assumes "initialized w"
  shows "init srv w = (Inr True, w) \<and> calls (snd (init srv w)) = calls w"
  using assms by (simp add: init_def)

theorem init_idempotent_when_ready_witness:
  "initialized ready_page \<and> init offline ready_page = (Inr True, ready_page)"
proof -
  have a: "initialized ready_page" by (simp add: ready_page_def)
  show ?thesis using init_idempotent_when_ready [where srv = offline, OF a] a by simp
qed

text \<open>
  C6: on a client that is not ready yet, a health response that does not report ready
  (the status is not \<^verbatim>\<open>"ok"\<close>, or \<^verbatim>\<open>models_loaded\<close> is not set) followed by a successful
  provisioning response whose body has \<^verbatim>\<open>success\<close> true makes \<^verbatim>\<open>init\<close> succeed with the
  flag set; the trace grows by the health request and one provisioning request.
\<close>

theorem init_provisions_once:
  assumes "\<not> initialized w"
    and "srv (health_request w) = Resolved h"
    and "json h = Inr data"
    and "\<not> nullish data"
    and "read_prop data ''status'' \<noteq> JStr ''ok'' \<or> \<not> truthy (read_prop data ''models_loaded'')"
    and "srv (download_request w) = Resolved r"
    and "ok r"
    and "json r = Inr answer"
    and "\<not> nullish answer"
    and "read_prop answer ''success'' = JBool True"
  shows "init srv w =
           (Inr True,
            w\<lparr>calls := calls w @ [health_request w, download_request w], initialized := True\<rparr>)
         \<and> length (filter (\<lambda>q. q = download_request w) [health_request w, download_request w]) = 1"
proof -
  have "health_request w \<noteq> download_request w"
    by (simp add: health_request_def download_request_def)
  moreover have "init srv w =
           (Inr True,
            w\<lparr>calls := calls w @ [health_request w, download_request w], initialized := True\<rparr>)"
    using assms by (auto simp: init_def Let_def logged_def get_prop_def)
  ultimately show ?thesis by simp
qed

theorem init_provisions_once_witness:
  "init (example_server health_pending download_done (server_error JNull))
     (new_page ''example.org'')
   = (Inr True,
      (new_page ''example.org'')
        \<lparr>calls := [health_request (new_page ''example.org''),
                   download_request (new_page ''example.org'')],
         initialized := True\<rparr>)"
proof -
  let ?srv = "example_server health_pending download_done (server_error JNull)"
  let ?w = "new_page ''example.org''"
  let ?data = "JObj [(''status'', JStr ''pending''), (''models_loaded'', JBool False)]"
  let ?answer = "JObj [(''success'', JBool True)]"
  have a: "\<not> initialized ?w" by (simp add: new_page_def)
  have b: "?srv (health_request ?w) = Resolved health_pending"
    by (simp add: health_request_def new_page_def example_server_def)
  have c: "json health_pending = Inr ?data"
    by (simp add: health_pending_def json_response_def)
  have d: "\<not> nullish ?data" by (simp add: nullish_def)
  have e: "read_prop ?data ''status'' \<noteq> JStr ''ok'' \<or> \<not> truthy (read_prop ?data ''models_loaded'')"
    by simp
  have f: "?srv (download_request ?w) = Resolved download_done"
    by (simp add: download_request_def new_page_def example_server_def)
  have g: "ok download_done"
    by (simp add: ok_def download_done_def json_response_def)
  have h: "json download_done = Inr ?answer"
    by (simp add: download_done_def json_response_def)
  have i: "\<not> nullish ?answer" by (simp add: nullish_def)
  have j: "read_prop ?answer ''success'' = JBool True" by simp
  show ?thesis
    using init_provisions_once [where srv = "?srv" and w = "?w", OF a b c d e f g h i j]
    by (simp add: new_page_def)
qed


text \<open>
  C7, as the spec has it: when provisioning fails, the message of the error is the reason
  the server supplied when there is one and a generic fallback otherwise. With a
  provisioning response of status 500 whose body carries the reason \<^verbatim>\<open>disk full\<close>, the
  message is neither: the body is not read, and the message is built from the status
  text.
\<close>

theorem init_failure_reason_counterexample:
  "fst (init (example_server health_pending download_refused health_ready)
          (new_page ''example.org''))
     = Inl (Error ''Erro ao baixar modelos: Internal Server Error'')
   \<and> read_prop (JObj [(''success'', JBool False), (''error'', JStr ''disk full'')]) ''error''
     = JStr ''disk full''
   \<and> ''Erro ao baixar modelos: Internal Server Error'' \<noteq> ''disk full''
   \<and> ''Erro ao baixar modelos: Internal Server Error'' \<noteq> unknown_download_error"
  by (simp add: init_def Let_def logged_def health_request_def download_request_def
        new_page_def example_server_def health_pending_def download_refused_def
        server_error_def json_response_def get_prop_def nullish_def ok_def
        unknown_download_error_def)

text \<open>
  C7, amended: on a client that is not ready yet and a health response that does not
  report ready, a provisioning response with a status outside 200 to 299 makes
  \<^verbatim>\<open>init\<close> fail with the message \<^verbatim>\<open>Erro ao baixar modelos:\<close> followed by the status text;
  a provisioning response with a success status whose body has a falsy \<^verbatim>\<open>success\<close> makes
  it fail with the generic message when the body's \<^verbatim>\<open>error\<close> is falsy, and otherwise with
  the string that \<^verbatim>\<open>error\<close> converts to, or with the \<^verbatim>\<open>TypeError\<close> of that conversion when
  it throws. In every case the flag stays false.
\<close>

theorem init_provisioning_failure:
  assumes "\<not> initialized w"
    and "srv (health_request w) = Resolved h"
    and "json h = Inr data"
    and "\<not> nullish data"
    and "read_prop data ''status'' \<noteq> JStr ''ok'' \<or> \<not> truthy (read_prop data ''models_loaded'')"
    and "srv (download_request w) = Resolved r"
  shows "(\<not> ok r \<longrightarrow>
            fst (init srv w) = Inl (Error (''Erro ao baixar modelos: '' @ statusText r))
            \<and> \<not> initialized (snd (init srv w)))
       \<and> (ok r \<and> json r = Inr answer \<and> \<not> nullish answer
            \<and> \<not> truthy (read_prop answer ''success'') \<longrightarrow>
            fst (init srv w) =
              (if truthy (read_prop answer ''error'')
               then (case to_string (read_prop answer ''error'') of
                       Inl e \<Rightarrow> Inl e
                     | Inr msg \<Rightarrow> Inl (Error msg))
               else Inl (Error unknown_download_error))
            \<and> \<not> initialized (snd (init srv w)))"
  using assms
  by (auto simp: init_def Let_def logged_def get_prop_def or_else_def split: sum.splits)

theorem init_provisioning_failure_witness:
  "fst (init (example_server health_pending download_refused health_ready)
          (new_page ''example.org''))
     = Inl (Error ''Erro ao baixar modelos: Internal Server Error'')
   \<and> \<not> initialized (snd (init (example_server health_pending download_refused health_ready)
                             (new_page ''example.org'')))
   \<and> fst (init (example_server health_pending
                 (download_declined (JObj [(''success'', JBool False),
                                           (''error'', JStr ''disk full'')])) health_ready)
            (new_page ''example.org''))
     = Inl (Error ''disk full'')
   \<and> fst (init (example_server health_pending
                 (download_declined (JObj [(''success'', JBool False)])) health_ready)
            (new_page ''example.org''))
     = Inl (Error unknown_download_error)
   \<and> fst (init (example_server health_pending
                 (download_declined
                    (JObj [(''success'', JBool False),
                           (''error'', JObj [(''toString'', JNum (whole 1))])])) health_ready)
            (new_page ''example.org''))
     = Inl (TypeError ''Cannot convert object to primitive value'')"
proof -
  let ?w = "new_page ''example.org''"
  let ?data = "JObj [(''status'', JStr ''pending''), (''models_loaded'', JBool False)]"
  let ?full = "JObj [(''success'', JBool False), (''error'', JStr ''disk full'')]"
  let ?bare = "JObj [(''success'', JBool False)]"
  let ?odd = "JObj [(''success'', JBool False),
                    (''error'', JObj [(''toString'', JNum (whole 1))])]"
  have a: "\<not> initialized ?w" by (simp add: new_page_def)
  have b: "example_server health_pending d health_ready (health_request ?w)
             = Resolved health_pending" for d
    by (simp add: health_request_def new_page_def example_server_def)
  have c: "json health_pending = Inr ?data"
    by (simp add: health_pending_def json_response_def)
  have d: "\<not> nullish ?data" by (simp add: nullish_def)
  have e: "read_prop ?data ''status'' \<noteq> JStr ''ok'' \<or> \<not> truthy (read_prop ?data ''models_loaded'')"
    by simp
  have f: "example_server health_pending d health_ready (download_request ?w) = Resolved d"
    for d
    by (simp add: download_request_def new_page_def example_server_def)
  have g: "\<not> ok download_refused"
    by (simp add: ok_def download_refused_def server_error_def json_response_def)
  have h: "ok (download_declined v) \<and> json (download_declined v) = Inr v" for v
    by (simp add: ok_def download_declined_def json_response_def)
  have i: "statusText download_refused = ''Internal Server Error''"
    by (simp add: download_refused_def server_error_def json_response_def)
  have n: "\<not> nullish ?full" "\<not> nullish ?bare" "\<not> nullish ?odd" by (simp_all add: nullish_def)
  show ?thesis
    using init_provisioning_failure
            [where srv = "example_server health_pending download_refused health_ready"
               and w = "?w", OF a b c d e f]
          init_provisioning_failure
            [where srv = "example_server health_pending (download_declined ?full) health_ready"
               and w = "?w" and answer = "?full", OF a b c d e f]
          init_provisioning_failure
            [where srv = "example_server health_pending (download_declined ?bare) health_ready"
               and w = "?w" and answer = "?bare", OF a b c d e f]
          init_provisioning_failure
            [where srv = "example_server health_pending (download_declined ?odd) health_ready"
               and w = "?w" and answer = "?odd", OF a b c d e f]
          g h i n
    by simp
qed

section \<open>Blank queries\<close>

text \<open>
  C8: when the text of the input is empty or whitespace only, both handlers show the
  prompt and return; nothing else of the state changes, so no request is made.
\<close>

theorem blank_query_rejected_locally:
  assumes "ws_only (input_value w)"
  shows "click_handler srv w = w\<lparr>alerts := alerts w @ [ingredients_prompt]\<rparr>
       \<and> calls (click_handler srv w) = calls w
       \<and> suggestRecipes srv w = w\<lparr>alerts := alerts w @ [ingredients_prompt]\<rparr>
       \<and> calls (suggestRecipes srv w) = calls w"
  using trim_ws_only [OF assms] by (simp add: click_handler_def suggestRecipes_def)

theorem blank_query_rejected_locally_witness:
  "ws_only [CHR 0x20, CHR 0xC2, CHR 0xA0, CHR 0x09]
   \<and> click_handler offline (ready_page\<lparr>input_value := [CHR 0x20, CHR 0xC2, CHR 0xA0, CHR 0x09]\<rparr>)
     = ready_page\<lparr>input_value := [CHR 0x20, CHR 0xC2, CHR 0xA0, CHR 0x09],
                  alerts := [ingredients_prompt]\<rparr>
   \<and> calls (suggestRecipes offline
              (ready_page\<lparr>input_value := [CHR 0x20, CHR 0xC2, CHR 0xA0, CHR 0x09]\<rparr>)) = []"
proof -
  let ?s = "[CHR 0x20, CHR 0xC2, CHR 0xA0, CHR 0x09]"
  have "ws_only ([CHR 0x20] @ [CHR 0xC2, CHR 0xA0] @ [CHR 0x09] @ [])"
    by (intro ws_more ws_empty) (simp_all add: white_space_def)
  then have a: "ws_only ?s" by simp
  then have b: "ws_only (input_value (ready_page\<lparr>input_value := ?s\<rparr>))" by simp
  show ?thesis
    using blank_query_rejected_locally [where srv = offline, OF b] a
    by (simp add: ready_page_def new_page_def)
qed

section \<open>The button after an attempt\<close>

text \<open>
  C4, as the spec has it: after every failed attempt, of the readiness initialization or
  of a suggestion request, the button ends enabled. When \<^verbatim>\<open>init\<close> fails at page load,
  the listener sets \<^verbatim>\<open>disabled\<close> to true: a button that was enabled ends disabled.
\<close>

theorem button_enabled_counterexample:
  "fst (init offline (new_page ''example.org'')) = Inl (TypeError ''Failed to fetch'')
   \<and> \<not> btn_disabled (new_page ''example.org'')
   \<and> btn_disabled (dom_content_loaded offline (new_page ''example.org''))"
  by (simp add: dom_content_loaded_def init_def Let_def logged_def offline_def new_page_def)


text \<open>
  C4, amended: after a click on a query that is not blank, the button ends enabled and
  labelled \<^verbatim>\<open>Sugerir Receitas\<close>, whether the suggestion succeeded or failed. After the
  initialization at page load, the button ends disabled when \<^verbatim>\<open>init\<close> failed and enabled
  when it succeeded.
\<close>

theorem button_after_attempt:
  "(truthy (JStr (trim (input_value w))) \<longrightarrow>
      \<not> btn_disabled (click_handler srv w) \<and> btn_text (click_handler srv w) = ''Sugerir Receitas'')
   \<and> (fst (init srv w) = Inl e \<longrightarrow> btn_disabled (dom_content_loaded srv w))
   \<and> (fst (init srv w) = Inr True \<longrightarrow> \<not> btn_disabled (dom_content_loaded srv w))"
proof (intro conjI impI)
  assume "truthy (JStr (trim (input_value w)))"
  then show "btn_text (click_handler srv w) = ''Sugerir Receitas''"
    by (simp add: click_handler_def Let_def split: prod.split sum.split option.split)
next
  assume "truthy (JStr (trim (input_value w)))"
  then show "\<not> btn_disabled (click_handler srv w)"
    by (simp add: click_handler_def Let_def split: prod.split sum.split option.split)
next
  assume "fst (init srv w) = Inl e"
  then show "btn_disabled (dom_content_loaded srv w)"
    by (simp add: dom_content_loaded_def init_frame_results)
next
  assume "fst (init srv w) = Inr True"
  then show "\<not> btn_disabled (dom_content_loaded srv w)"
    by (simp add: dom_content_loaded_def init_frame_results)
qed

theorem button_after_attempt_witness:
  "truthy (JStr (trim (input_value ready_page)))
   \<and> fst (suggest (example_server health_ready download_done (server_error JNull))
            (JStr sample_query) ready_page)
       = Inl (Error ''HTTP 500: Internal Server Error'')
   \<and> \<not> btn_disabled (click_handler
                        (example_server health_ready download_done (server_error JNull))
                        ready_page)
   \<and> fst (init offline (new_page ''example.org'')) = Inl (TypeError ''Failed to fetch'')
   \<and> btn_disabled (dom_content_loaded offline (new_page ''example.org''))
   \<and> fst (init (example_server health_ready download_done (server_error JNull))
            (new_page ''example.org'')) = Inr True
   \<and> \<not> btn_disabled (dom_content_loaded
                        (example_server health_ready download_done (server_error JNull))
                        (new_page ''example.org''))"
proof -
  let ?srv = "example_server health_ready download_done (server_error JNull)"
  let ?w = "new_page ''example.org''"
  have a: "truthy (JStr (trim (input_value ready_page)))"
    by (simp add: trim_sample sample_query_def)
  have b: "fst (suggest ?srv (JStr sample_query) ready_page)
             = Inl (Error ''HTTP 500: Internal Server Error'')"
    by (simp add: suggest_def Let_def logged_def suggest_request_def ready_page_def
          new_page_def example_server_def server_error_def json_response_def ok_def
          print_500)
  have c: "fst (init offline ?w) = Inl (TypeError ''Failed to fetch'')"
    by (simp add: init_def Let_def logged_def offline_def new_page_def)
  have d: "fst (init ?srv ?w) = Inr True"
    by (simp add: init_def Let_def logged_def health_request_def new_page_def
          example_server_def health_ready_def json_response_def get_prop_def nullish_def)
  show ?thesis
    using button_after_attempt [of ready_page ?srv]
          button_after_attempt [of ?w offline "TypeError ''Failed to fetch''"]
          button_after_attempt [of ?w ?srv]
          a b c d
    by simp
qed

section \<open>No recipes in the response\<close>

text \<open>
  C10: in the class-based variant, undefined and null are rendered as the empty array
  is, with the placeholder for no results. So when the client is ready and the body of
  a successful suggestion response has no \<^verbatim>\<open>recipes\<close> property, \<^verbatim>\<open>suggest\<close> returns
  undefined and the click ends with the placeholder in the results area, not with an
  error.
\<close>

theorem missing_recipes_shown_as_no_matches:
  "render JUndefined = Inr no_results
   \<and> render JNull = Inr no_results
   \<and> render (JArr []) = Inr no_results
   \<and> (initialized w \<and> truthy (JStr (trim (input_value w)))
      \<and> srv (suggest_request w (JStr (trim (input_value w)))) = Resolved r
      \<and> ok r \<and> json r = Inr envelope \<and> \<not> nullish envelope
      \<and> read_prop envelope ''recipes'' = JUndefined
      \<longrightarrow> fst (suggest srv (JStr (trim (input_value w))) w) = Inr JUndefined
          \<and> results_html (click_handler srv w) = no_results)"
proof -
  {
    assume h: "initialized w" "truthy (JStr (trim (input_value w)))"
      "srv (suggest_request w (JStr (trim (input_value w)))) = Resolved r"
      "ok r" "json r = Inr envelope" "\<not> nullish envelope"
      "read_prop envelope ''recipes'' = JUndefined"
    let ?q = "JStr (trim (input_value w))"
    have req: "suggest_request (w\<lparr>btn_disabled := b, btn_text := t, results_html := x\<rparr>) ?q
                 = suggest_request w ?q" for b t x
      by (simp add: suggest_request_def)
    have "fst (suggest srv ?q w) = Inr JUndefined"
      using h by (simp add: suggest_def Let_def get_prop_def)
    moreover have "results_html (click_handler srv w) = no_results"
      using h
      by (simp add: click_handler_def suggest_def Let_def get_prop_def req displayResults_def
            render_no_recipes logged_def)
    ultimately have "fst (suggest srv ?q w) = Inr JUndefined
                     \<and> results_html (click_handler srv w) = no_results" by simp
  }
  then show ?thesis
    by (simp add: render_no_recipes)
qed

theorem missing_recipes_shown_as_no_matches_witness:
  "initialized ready_page
   \<and> truthy (JStr (trim (input_value ready_page)))
   \<and> fst (suggest (example_server health_ready download_done (json_response 200 ''OK'' (JObj [])))
            (JStr sample_query) ready_page) = Inr JUndefined
   \<and> results_html (click_handler
                      (example_server health_ready download_done (json_response 200 ''OK'' (JObj [])))
                      ready_page) = no_results"
proof -
  let ?srv = "example_server health_ready download_done (json_response 200 ''OK'' (JObj []))"
  have a: "initialized ready_page" by (simp add: ready_page_def)
  have b: "truthy (JStr (trim (input_value ready_page)))"
    by (simp add: trim_sample sample_query_def)
  have c: "?srv (suggest_request ready_page (JStr (trim (input_value ready_page))))
             = Resolved (json_response 200 ''OK'' (JObj []))"
    by (simp add: suggest_request_def ready_page_def new_page_def example_server_def)
  have d: "ok (json_response 200 ''OK'' (JObj []))"
    "json (json_response 200 ''OK'' (JObj [])) = Inr (JObj [])"
    by (simp_all add: ok_def json_response_def)
  have e: "\<not> nullish (JObj [])" "read_prop (JObj []) ''recipes'' = JUndefined"
    by (simp_all add: nullish_def)
  show ?thesis
    using missing_recipes_shown_as_no_matches
            [of ready_page ?srv "json_response 200 ''OK'' (JObj [])" "JObj []"]
          a b c d e
    by (simp add: trim_sample)
qed


end
